theory Spec2Isabelle
  imports Complex_Main "HOL-Library.AList"
begin

section \<open>Common conventions\<close>

text \<open>
  A raised Python exception is represented by its message \<open>str(e)\<close>. A provider call that
  can raise returns a sum whose \<open>Inl\<close> carries that message.
\<close>

type_synonym exn = string

text \<open>\<open>xs[0]\<close>: raises IndexError on the empty list.\<close>

definition index0 :: "'a list \<Rightarrow> exn + 'a" where
  "index0 xs = (case xs of [] \<Rightarrow> Inl ''list index out of range'' | x # _ \<Rightarrow> Inr x)"

text \<open>\<open>f"{x}"\<close> for a value that is a string or None.\<close>

definition py_str :: "string option \<Rightarrow> string" where
  "py_str x = (case x of None \<Rightarrow> ''None'' | Some s \<Rightarrow> s)"

text \<open>\<open>event.get(key, [])\<close> for a list-valued key.\<close>

definition get_list :: "'a list option \<Rightarrow> 'a list" where
  "get_list x = (case x of None \<Rightarrow> [] | Some xs \<Rightarrow> xs)"

text \<open>
  The loop \<open>for x in xs: ...\<close> whose body updates the state and appends one entry to a
  result list.
\<close>

fun for_each :: "('a \<Rightarrow> 's \<Rightarrow> 's \<times> 'r) \<Rightarrow> 'a list \<Rightarrow> 's \<Rightarrow> 's \<times> 'r list" where
  "for_each f [] st = (st, [])"
| "for_each f (x # xs) st =
     (case f x st of (st1, r) \<Rightarrow>
        (case for_each f xs st1 of (st2, rs) \<Rightarrow> (st2, r # rs)))"

section \<open>Lambda/lambda_cleanup.py\<close>

subsection \<open>The EC2 client\<close>

text \<open>
  The boto3 EC2 client is external. It is a parameter of the model: an abstract provider
  state \<open>'w\<close>, the five read calls the module uses (they leave the provider state alone and
  either raise or return the part of the response the module looks at), and the six
  mutating calls, each of which returns the next provider state and the exception it
  raised, if any.
\<close>

record ec2_instance =
  State_Name :: string

record reservation =
  Instances :: "ec2_instance list"

record volume =
  vol_State :: string

record address =
  AssociationId :: "string option"

record security_group =
  GroupName :: string

type_synonym network_interface = string

datatype mutation =
    StopInstances string
  | StartInstances string
  | TerminateInstances string
  | DeleteVolume string
  | ReleaseAddress string
  | DeleteSecurityGroup string

record 'w ec2_client =
  describe_instances :: "'w \<Rightarrow> string \<Rightarrow> exn + reservation list"
  describe_volumes :: "'w \<Rightarrow> string \<Rightarrow> exn + volume list"
  describe_addresses :: "'w \<Rightarrow> string \<Rightarrow> exn + address list"
  describe_security_groups :: "'w \<Rightarrow> string \<Rightarrow> exn + security_group list"
  describe_network_interfaces :: "'w \<Rightarrow> string \<Rightarrow> exn + network_interface list"
  mutate :: "'w \<Rightarrow> mutation \<Rightarrow> 'w \<times> exn option"

text \<open>
  The state threaded through the module: the provider state and the mutating calls issued
  so far, oldest first.
\<close>

record 'w ec2_state =
  world :: 'w
  issued :: "mutation list"

definition issue :: "'w ec2_client \<Rightarrow> mutation \<Rightarrow> 'w ec2_state \<Rightarrow> 'w ec2_state \<times> exn option" where
  "issue api m st =
     (case mutate api (world st) m of
        (w, r) \<Rightarrow> (\<lparr>world = w, issued = issued st @ [m]\<rparr>, r))"

text \<open>
  The tail of each loop body: \<open>ec2.<call>(...)\<close> followed by the append of the success tag.
\<close>

definition perform :: "'w ec2_client \<Rightarrow> mutation \<Rightarrow> string \<Rightarrow> 'w ec2_state \<Rightarrow> 'w ec2_state \<times> (exn + string)" where
  "perform api m tag st =
     (case issue api m st of
        (st1, Some e) \<Rightarrow> (st1, Inl e)
      | (st1, None) \<Rightarrow> (st1, Inr tag))"

text \<open>
  \<open>try: <body> except Exception as e: resp["results"].append({i: f"error:{str(e)}"})\<close>.
  A result entry \<open>{i: tag}\<close> is the pair \<open>(i, tag)\<close>.
\<close>

definition guarded ::
  "(string \<Rightarrow> 's \<Rightarrow> 's \<times> (exn + string)) \<Rightarrow> string \<Rightarrow> 's \<Rightarrow> 's \<times> (string \<times> string)" where
  "guarded body i st =
     (case body i st of
        (st1, Inl e) \<Rightarrow> (st1, (i, ''error:'' @ e))
      | (st1, Inr tag) \<Rightarrow> (st1, (i, tag)))"

record resp =
  action :: string
  requested :: "string list"
  results :: "(string \<times> string) list"

definition run_targets ::
  "string \<Rightarrow> (string \<Rightarrow> 's \<Rightarrow> 's \<times> (exn + string)) \<Rightarrow> string list \<Rightarrow> 's \<Rightarrow> 's \<times> resp" where
  "run_targets name body ids st =
     (case for_each (guarded body) ids st of
        (st1, rs) \<Rightarrow> (st1, \<lparr>action = name, requested = ids, results = rs\<rparr>))"

subsection \<open>stop_instances, start_instances\<close>

text \<open>\<open>ec2.describe_instances(InstanceIds=[i])["Reservations"][0]["Instances"][0]\<close>\<close>

definition first_instance :: "'w ec2_client \<Rightarrow> 'w \<Rightarrow> string \<Rightarrow> exn + ec2_instance" where
  "first_instance api w i =
     (case describe_instances api w i of
        Inl e \<Rightarrow> Inl e
      | Inr rs \<Rightarrow>
          (case index0 rs of
             Inl e \<Rightarrow> Inl e
           | Inr r \<Rightarrow> index0 (Instances r)))"

definition stop_body :: "'w ec2_client \<Rightarrow> bool \<Rightarrow> string \<Rightarrow> 'w ec2_state \<Rightarrow> 'w ec2_state \<times> (exn + string)" where
  "stop_body api dry_run i st =
     (case first_instance api (world st) i of
        Inl e \<Rightarrow> (st, Inl e)
      | Inr inst \<Rightarrow>
          if State_Name inst = ''stopped'' then (st, Inr ''already stopped'')
          else if dry_run then (st, Inr ''dry_run_ok'')
          else perform api (StopInstances i) ''stop_requested'' st)"

definition stop_instances :: "'w ec2_client \<Rightarrow> string list \<Rightarrow> bool \<Rightarrow> 'w ec2_state \<Rightarrow> 'w ec2_state \<times> resp" where
  "stop_instances api instance_ids dry_run =
     run_targets ''stop_instances'' (stop_body api dry_run) instance_ids"

definition start_body :: "'w ec2_client \<Rightarrow> bool \<Rightarrow> string \<Rightarrow> 'w ec2_state \<Rightarrow> 'w ec2_state \<times> (exn + string)" where
  "start_body api dry_run i st =
     (case first_instance api (world st) i of
        Inl e \<Rightarrow> (st, Inl e)
      | Inr inst \<Rightarrow>
          if State_Name inst = ''running'' then (st, Inr ''already running'')
          else if dry_run then (st, Inr ''dry_run_ok'')
          else perform api (StartInstances i) ''start_requested'' st)"

definition start_instances :: "'w ec2_client \<Rightarrow> string list \<Rightarrow> bool \<Rightarrow> 'w ec2_state \<Rightarrow> 'w ec2_state \<times> resp" where
  "start_instances api instance_ids dry_run =
     run_targets ''start_instances'' (start_body api dry_run) instance_ids"

subsection \<open>terminate_instances\<close>

definition terminate_body :: "'w ec2_client \<Rightarrow> bool \<Rightarrow> string \<Rightarrow> 'w ec2_state \<Rightarrow> 'w ec2_state \<times> (exn + string)" where
  "terminate_body api dry_run i st =
     (if dry_run then (st, Inr ''dry_run_ok'')
      else perform api (TerminateInstances i) ''terminate_requested'' st)"

definition terminate_instances :: "'w ec2_client \<Rightarrow> string list \<Rightarrow> bool \<Rightarrow> 'w ec2_state \<Rightarrow> 'w ec2_state \<times> resp" where
  "terminate_instances api instance_ids dry_run =
     run_targets ''terminate_instances'' (terminate_body api dry_run) instance_ids"

subsection \<open>delete_volumes\<close>

text \<open>\<open>ec2.describe_volumes(VolumeIds=[v])["Volumes"][0]\<close>\<close>

definition first_volume :: "'w ec2_client \<Rightarrow> 'w \<Rightarrow> string \<Rightarrow> exn + volume" where
  "first_volume api w v =
     (case describe_volumes api w v of
        Inl e \<Rightarrow> Inl e
      | Inr vols \<Rightarrow> index0 vols)"

definition delete_volume_body :: "'w ec2_client \<Rightarrow> bool \<Rightarrow> string \<Rightarrow> 'w ec2_state \<Rightarrow> 'w ec2_state \<times> (exn + string)" where
  "delete_volume_body api dry_run v st =
     (case first_volume api (world st) v of
        Inl e \<Rightarrow> (st, Inl e)
      | Inr vol \<Rightarrow>
          if vol_State vol \<noteq> ''available''
          then (st, Inr (''not_available_state:'' @ vol_State vol))
          else if dry_run then (st, Inr ''dry_run_ok'')
          else perform api (DeleteVolume v) ''deleted'' st)"

definition delete_volumes :: "'w ec2_client \<Rightarrow> string list \<Rightarrow> bool \<Rightarrow> 'w ec2_state \<Rightarrow> 'w ec2_state \<times> resp" where
  "delete_volumes api volume_ids dry_run =
     run_targets ''delete_volumes'' (delete_volume_body api dry_run) volume_ids"

subsection \<open>release_eips\<close>

definition release_eip_body :: "'w ec2_client \<Rightarrow> bool \<Rightarrow> string \<Rightarrow> 'w ec2_state \<Rightarrow> 'w ec2_state \<times> (exn + string)" where
  "release_eip_body api dry_run a st =
     (case describe_addresses api (world st) a of
        Inl e \<Rightarrow> (st, Inl e)
      | Inr addrs \<Rightarrow>
          (case addrs of
             [] \<Rightarrow> (st, Inr ''not_found'')
           | addr # _ \<Rightarrow>
               if AssociationId addr \<noteq> None then (st, Inr ''associated'')
               else if dry_run then (st, Inr ''dry_run_ok'')
               else perform api (ReleaseAddress a) ''released'' st))"

definition release_eips :: "'w ec2_client \<Rightarrow> string list \<Rightarrow> bool \<Rightarrow> 'w ec2_state \<Rightarrow> 'w ec2_state \<times> resp" where
  "release_eips api allocation_ids dry_run =
     run_targets ''release_eips'' (release_eip_body api dry_run) allocation_ids"

subsection \<open>delete_security_groups\<close>

definition delete_security_group_body :: "'w ec2_client \<Rightarrow> bool \<Rightarrow> string \<Rightarrow> 'w ec2_state \<Rightarrow> 'w ec2_state \<times> (exn + string)" where
  "delete_security_group_body api dry_run g st =
     (case describe_security_groups api (world st) g of
        Inl e \<Rightarrow> (st, Inl e)
      | Inr gids \<Rightarrow>
          (case gids of
             [] \<Rightarrow> (st, Inr ''not_found'')
           | grp # _ \<Rightarrow>
               if GroupName grp = ''default'' then (st, Inr ''default_group_skip'')
               else
                 (case describe_network_interfaces api (world st) g of
                    Inl e \<Rightarrow> (st, Inl e)
                  | Inr enis \<Rightarrow>
                      if enis \<noteq> [] then (st, Inr ''in_use'')
                      else if dry_run then (st, Inr ''dry_run_ok'')
                      else perform api (DeleteSecurityGroup g) ''deleted'' st)))"

definition delete_security_groups :: "'w ec2_client \<Rightarrow> string list \<Rightarrow> bool \<Rightarrow> 'w ec2_state \<Rightarrow> 'w ec2_state \<times> resp" where
  "delete_security_groups api group_ids dry_run =
     run_targets ''delete_security_groups'' (delete_security_group_body api dry_run) group_ids"

subsection \<open>log_action and lambda_handler\<close>

text \<open>
  The DynamoDB table is external as well: an abstract store state \<open>'d\<close> and a \<open>put_item\<close>
  that returns the next store state and the exception it raised, if any.
\<close>

record ('d, 'item) dynamodb_client =
  put_item :: "'d \<Rightarrow> string \<Rightarrow> 'item \<Rightarrow> 'd \<times> exn option"

definition log_action :: "('d, 'item) dynamodb_client \<Rightarrow> string \<Rightarrow> 'item \<Rightarrow> 'd \<Rightarrow> 'd" where
  "log_action db LOG_TABLE item d = fst (put_item db d LOG_TABLE item)"

record event =
  ev_action :: "string option"
  ev_dry_run :: "bool option"
  ev_instance_ids :: "string list option"
  ev_volume_ids :: "string list option"
  ev_allocation_ids :: "string list option"
  ev_group_ids :: "string list option"

record cleanup_result =
  res_action :: "string option"
  res_timestamp :: string
  res_dry_run :: bool
  res_details :: "resp option"
  res_error :: "string option"

record log_item =
  ActionId :: string
  Action :: "string option"
  Timestamp :: string
  DryRun :: bool
  Result :: cleanup_result

record response =
  statusCode :: int
  body :: cleanup_result

text \<open>
  \<open>datetime.utcnow().isoformat()\<close> is read three times; the three readings are the
  parameter \<open>clock\<close>. \<open>json.dumps(result)\<close> and \<open>str(result)\<close> serialise a dictionary of
  JSON values and are not modelled: \<open>body\<close> and \<open>Result\<close> hold the dictionary itself.
  The cleanup functions catch every exception of a target inside their loop, so the
  handler's own \<open>except\<close> branch has no path to it here.
\<close>

definition with_details :: "cleanup_result \<Rightarrow> 's \<times> resp \<Rightarrow> 's \<times> cleanup_result" where
  "with_details result r = (fst r, result\<lparr>res_details := Some (snd r)\<rparr>)"

text \<open>The \<open>if\<close>/\<open>elif\<close> chain on the action inside the handler's \<open>try\<close>.\<close>

definition dispatch ::
  "'w ec2_client \<Rightarrow> event \<Rightarrow> bool \<Rightarrow> cleanup_result \<Rightarrow> 'w ec2_state \<Rightarrow> 'w ec2_state \<times> cleanup_result" where
  "dispatch api ev dry_run result st =
     (let act = ev_action ev in
      if act = Some ''stop_instances'' then
        with_details result (stop_instances api (get_list (ev_instance_ids ev)) dry_run st)
      else if act = Some ''start_instances'' then
        with_details result (start_instances api (get_list (ev_instance_ids ev)) dry_run st)
      else if act = Some ''terminate_instances'' then
        with_details result (terminate_instances api (get_list (ev_instance_ids ev)) dry_run st)
      else if act = Some ''delete_volumes'' then
        with_details result (delete_volumes api (get_list (ev_volume_ids ev)) dry_run st)
      else if act = Some ''release_eips'' then
        with_details result (release_eips api (get_list (ev_allocation_ids ev)) dry_run st)
      else if act = Some ''delete_security_groups'' then
        with_details result (delete_security_groups api (get_list (ev_group_ids ev)) dry_run st)
      else (st, result\<lparr>res_error := Some (''Unknown action: '' @ py_str act)\<rparr>))"

definition lambda_handler_cleanup ::
  "'w ec2_client \<Rightarrow> ('d, log_item) dynamodb_client \<Rightarrow> string \<Rightarrow> string \<times> string \<times> string \<Rightarrow>
   event \<Rightarrow> 'w ec2_state \<Rightarrow> 'd \<Rightarrow> response \<times> 'w ec2_state \<times> 'd" where
  "lambda_handler_cleanup api db LOG_TABLE clock ev st d =
     (let act = ev_action ev;
          dry_run = (case ev_dry_run ev of None \<Rightarrow> True | Some b \<Rightarrow> b);
          result = \<lparr>res_action = act, res_timestamp = fst clock, res_dry_run = dry_run,
                    res_details = None, res_error = None\<rparr>
      in case dispatch api ev dry_run result st of
           (st1, result1) \<Rightarrow>
             (let item = \<lparr>ActionId = py_str act @ ''-'' @ fst (snd clock), Action = act,
                          Timestamp = snd (snd clock), DryRun = dry_run, Result = result1\<rparr>;
                  d1 = log_action db LOG_TABLE item d
              in (\<lparr>statusCode = 200, body = result1\<rparr>, st1, d1)))"

section \<open>Lambda/Detect_idle_ec2_stale_resource.py\<close>

subsection \<open>Data\<close>

text \<open>
  CloudWatch statistics are binary floats in the source. They are modelled as real numbers:
  sums, the mean and the comparisons with the thresholds are exact.
\<close>

definition CPU_THRESHOLD :: real where
  "CPU_THRESHOLD = 10.0"

definition NETWORK_THRESHOLD :: real where
  "NETWORK_THRESHOLD = 1048576"

definition EVALUATION_MINUTES :: int where
  "EVALUATION_MINUTES = 5"

text \<open>What the handler reads of a boto3 \<open>Instance\<close> resource.\<close>

record ec2_Instance =
  inst_id :: string
  instance_type :: string
  launch_time :: string
  AvailabilityZone :: string
  tags :: "(string \<times> string) list option"

record cpu_datapoint =
  dp_Average :: real
  dp_Maximum :: real

record net_datapoint =
  dp_Sum :: real

record instance_info =
  InstanceId :: string
  InstanceType :: string
  LaunchTime :: string
  Region :: string
  Tags :: "(string \<times> string) list"
  Status :: string
  Recommendation :: string
  AvgCPU :: "real option"
  MaxCPU :: "real option"
  NetworkInBytes :: "int option"
  NetworkOutBytes :: "int option"
  TotalNetworkBytes :: "int option"
  EvaluationTimestamp :: "string option"

text \<open>The item written to the DynamoDB table.\<close>

record detection_record =
  item_InstanceId :: string
  item_EvaluationTimestamp :: string
  item_InstanceType :: string
  item_AvgCPU :: real
  item_MaxCPU :: real
  item_NetworkInBytes :: real
  item_NetworkOutBytes :: real
  item_TotalNetworkBytes :: real
  item_Status :: string
  item_Recommendation :: string
  item_Region :: string
  item_Tags :: "(string \<times> string) list"
  item_LaunchTime :: string

text \<open>
  CloudWatch, the tagging call and the table are external: three reads, which either raise
  or return the \<open>Datapoints\<close> entry of the response when it has one, and two writes, which
  return the next provider state and the exception raised, if any.
\<close>

datatype detect_call =
    CreateTags string "(string \<times> string) list"
  | PutItem detection_record

record 'w detect_client =
  cpu_utilization :: "'w \<Rightarrow> string \<Rightarrow> exn + cpu_datapoint list option"
  network_in :: "'w \<Rightarrow> string \<Rightarrow> exn + net_datapoint list option"
  network_out :: "'w \<Rightarrow> string \<Rightarrow> exn + net_datapoint list option"
  do_write :: "'w \<Rightarrow> detect_call \<Rightarrow> 'w \<times> exn option"

text \<open>
  The state of one scan: the provider state, the writes issued so far (oldest first), and
  the two lists the handler builds.
\<close>

record 'w scan =
  provider :: 'w
  calls :: "detect_call list"
  idle_instances :: "instance_info list"
  analyzed_instances :: "instance_info list"

text \<open>
  A write whose exception is caught and logged by the caller: \<open>create_tags\<close> inside its own
  \<open>try\<close>, \<open>put_item\<close> as the last statement of the instance's \<open>try\<close>.
\<close>

definition attempt :: "'w detect_client \<Rightarrow> detect_call \<Rightarrow> 'w scan \<Rightarrow> 'w scan" where
  "attempt api c s = s\<lparr>provider := fst (do_write api (provider s) c), calls := calls s @ [c]\<rparr>"

subsection \<open>Helpers of the loop body\<close>

text \<open>
  \<open>{tag['Key']: tag['Value'] for tag in (instance.tags or [])}\<close>: a dictionary keeps the
  position of a key that is set again and takes the later value.
\<close>

definition tags_dict :: "ec2_Instance \<Rightarrow> (string \<times> string) list" where
  "tags_dict inst = foldl (\<lambda>d kv. AList.update (fst kv) (snd kv) d) [] (get_list (tags inst))"

text \<open>\<open>round(x, 2)\<close>, to the nearest hundredth, ties to even; \<open>int(x)\<close>, towards zero.\<close>

definition round_half_even :: "real \<Rightarrow> int" where
  "round_half_even y =
     (let f = \<lfloor>y\<rfloor>; d = y - of_int f
      in if d < 1 / 2 then f else if 1 / 2 < d then f + 1 else if even f then f else f + 1)"

definition round2 :: "real \<Rightarrow> real" where
  "round2 x = of_int (round_half_even (x * 100)) / 100"

definition py_int :: "real \<Rightarrow> int" where
  "py_int x = (if 0 \<le> x then \<lfloor>x\<rfloor> else \<lceil>x\<rceil>)"

definition base_info :: "ec2_Instance \<Rightarrow> string \<Rightarrow> string \<Rightarrow> instance_info" where
  "base_info inst status recommendation =
     \<lparr>InstanceId = inst_id inst, InstanceType = instance_type inst,
      LaunchTime = launch_time inst, Region = butlast (AvailabilityZone inst),
      Tags = tags_dict inst, Status = status, Recommendation = recommendation,
      AvgCPU = None, MaxCPU = None, NetworkInBytes = None, NetworkOutBytes = None,
      TotalNetworkBytes = None, EvaluationTimestamp = None\<rparr>"

definition with_metrics ::
  "instance_info \<Rightarrow> real \<Rightarrow> real \<Rightarrow> real \<Rightarrow> real \<Rightarrow> string \<Rightarrow> instance_info" where
  "with_metrics info avg_cpu max_cpu total_net_in total_net_out timestamp =
     info\<lparr>AvgCPU := Some (round2 avg_cpu), MaxCPU := Some (round2 max_cpu),
          NetworkInBytes := Some (py_int total_net_in),
          NetworkOutBytes := Some (py_int total_net_out),
          TotalNetworkBytes := Some (py_int (total_net_in + total_net_out)),
          EvaluationTimestamp := Some timestamp\<rparr>"

definition record_of ::
  "instance_info \<Rightarrow> real \<Rightarrow> real \<Rightarrow> real \<Rightarrow> real \<Rightarrow> string \<Rightarrow> detection_record" where
  "record_of info avg_cpu max_cpu total_net_in total_net_out timestamp =
     \<lparr>item_InstanceId = InstanceId info, item_EvaluationTimestamp = timestamp,
      item_InstanceType = InstanceType info,
      item_AvgCPU = round2 avg_cpu, item_MaxCPU = round2 max_cpu,
      item_NetworkInBytes = total_net_in, item_NetworkOutBytes = total_net_out,
      item_TotalNetworkBytes = total_net_in + total_net_out,
      item_Status = Status info, item_Recommendation = Recommendation info,
      item_Region = Region info, item_Tags = Tags info, item_LaunchTime = LaunchTime info\<rparr>"

subsection \<open>The loop body\<close>

text \<open>
  Lines 99 to 160: what the body does once the three metric responses are there. An empty
  CPU series gives the \<open>NoData\<close> entry and \<open>continue\<close>. Otherwise the statistics are computed,
  the instance is classified, an idle instance is tagged, the entry is appended and the
  record is written.
\<close>

definition classify ::
  "'w detect_client \<Rightarrow> string \<Rightarrow> ec2_Instance \<Rightarrow> cpu_datapoint list \<Rightarrow> net_datapoint list \<Rightarrow>
   net_datapoint list \<Rightarrow> 'w scan \<Rightarrow> 'w scan" where
  "classify api timestamp inst cpu_datapoints netin_datapoints netout_datapoints s =
     (case cpu_datapoints of
        [] \<Rightarrow>
          s\<lparr>analyzed_instances := analyzed_instances s
               @ [base_info inst ''NoData'' ''Enable detailed monitoring'']\<rparr>
      | dp # dps \<Rightarrow>
          (let avg_cpu = sum_list (map dp_Average cpu_datapoints) / of_nat (length cpu_datapoints);
               max_cpu = fold max (map dp_Maximum dps) (dp_Maximum dp);
               total_net_in = sum_list (map dp_Sum netin_datapoints);
               total_net_out = sum_list (map dp_Sum netout_datapoints);
               total_network = total_net_in + total_net_out
           in if avg_cpu < CPU_THRESHOLD \<and> total_network < NETWORK_THRESHOLD then
                (let info = with_metrics (base_info inst ''Idle'' ''Consider stopping instance'')
                              avg_cpu max_cpu total_net_in total_net_out timestamp;
                     s1 = s\<lparr>idle_instances := idle_instances s @ [info]\<rparr>;
                     s2 = attempt api
                            (CreateTags (inst_id inst)
                               [(''CostOptimization'', ''CandidateForStop''),
                                (''IdleDetectedAt'', timestamp)]) s1;
                     s3 = s2\<lparr>analyzed_instances := analyzed_instances s2 @ [info]\<rparr>
                 in attempt api
                      (PutItem (record_of info avg_cpu max_cpu total_net_in total_net_out timestamp))
                      s3)
              else
                (let info = with_metrics (base_info inst ''Active'' ''Keep running'')
                              avg_cpu max_cpu total_net_in total_net_out timestamp;
                     s1 = s\<lparr>analyzed_instances := analyzed_instances s @ [info]\<rparr>
                 in attempt api
                      (PutItem (record_of info avg_cpu max_cpu total_net_in total_net_out timestamp))
                      s1)))"

text \<open>
  Lines 57 to 163: the three \<open>get_metric_statistics\<close> calls inside the \<open>try\<close>. An exception
  of any of them is logged and the loop goes on with the next instance.
\<close>

definition analyze :: "'w detect_client \<Rightarrow> string \<Rightarrow> ec2_Instance \<Rightarrow> 'w scan \<Rightarrow> 'w scan" where
  "analyze api timestamp inst s =
     (case cpu_utilization api (provider s) (inst_id inst) of
        Inl e \<Rightarrow> s
      | Inr cpu_response \<Rightarrow>
          (case network_in api (provider s) (inst_id inst) of
             Inl e \<Rightarrow> s
           | Inr netin_response \<Rightarrow>
               (case network_out api (provider s) (inst_id inst) of
                  Inl e \<Rightarrow> s
                | Inr netout_response \<Rightarrow>
                    classify api timestamp inst (get_list cpu_response)
                      (get_list netin_response) (get_list netout_response) s)))"

text \<open>Lines 43 to 55: the instance is skipped when its tag \<open>AutoStop\<close> is \<open>false\<close>.\<close>

definition scan_instance :: "'w detect_client \<Rightarrow> string \<Rightarrow> ec2_Instance \<Rightarrow> 'w scan \<Rightarrow> 'w scan" where
  "scan_instance api timestamp inst s =
     (if map_of (tags_dict inst) ''AutoStop'' = Some ''false'' then s
      else analyze api timestamp inst s)"

subsection \<open>lambda_handler\<close>

record summary_counts =
  total_instances_analyzed :: nat
  idle_count :: nat
  active_instances :: nat

record summary =
  sum_timestamp :: string
  evaluation_period_minutes :: int
  counts :: summary_counts
  sum_idle_instances :: "instance_info list"
  all_instances :: "instance_info list"

record detect_response =
  det_statusCode :: int
  det_body :: summary

text \<open>
  \<open>instances\<close> is the result of \<open>ec2.instances.filter(...)\<close>, the running instances, and
  \<open>timestamp\<close> the reading of the clock at the start. The handler returns its response; the
  model returns the final scan state with it.
\<close>

definition lambda_handler_detect ::
  "'w detect_client \<Rightarrow> string \<Rightarrow> ec2_Instance list \<Rightarrow> 'w \<Rightarrow> detect_response \<times> 'w scan" where
  "lambda_handler_detect api timestamp instances w =
     (let s = fold (scan_instance api timestamp) instances
                \<lparr>provider = w, calls = [], idle_instances = [], analyzed_instances = []\<rparr>;
          smry = \<lparr>sum_timestamp = timestamp, evaluation_period_minutes = EVALUATION_MINUTES,
                  counts = \<lparr>total_instances_analyzed = length (analyzed_instances s),
                            idle_count = length (idle_instances s),
                            active_instances =
                              length (filter (\<lambda>i. Status i = ''Active'') (analyzed_instances s))\<rparr>,
                  sum_idle_instances = idle_instances s,
                  all_instances = analyzed_instances s\<rparr>
      in (\<lparr>det_statusCode = 200, det_body = smry\<rparr>, s))"

section \<open>Vocabulary of the properties\<close>

text \<open>The result tags \<open>error:<message>\<close>, and the tags with which a state validator refuses.\<close>

definition is_error :: "string \<Rightarrow> bool" where
  "is_error t = (take 6 t = ''error:'')"

definition is_refusal :: "string \<Rightarrow> bool" where
  "is_refusal t =
     (t \<in> set [''already stopped'', ''already running'', ''not_found'', ''associated'',
                ''in_use'', ''default_group_skip'']
      \<or> take 20 t = ''not_available_state:'')"

text \<open>The six cleanup functions, each with the body of its loop.\<close>

definition cleanup_functions ::
  "'w ec2_client \<Rightarrow>
   ((bool \<Rightarrow> string \<Rightarrow> 'w ec2_state \<Rightarrow> 'w ec2_state \<times> (exn + string)) \<times>
    (string list \<Rightarrow> bool \<Rightarrow> 'w ec2_state \<Rightarrow> 'w ec2_state \<times> resp)) list" where
  "cleanup_functions api =
     [(stop_body api, stop_instances api),
      (start_body api, start_instances api),
      (terminate_body api, terminate_instances api),
      (delete_volume_body api, delete_volumes api),
      (release_eip_body api, release_eips api),
      (delete_security_group_body api, delete_security_groups api)]"

text \<open>
  A loop body seen as a decision that does not look at \<open>dry_run\<close>, followed by the dry-run
  check: the body raises before any call, or it refuses with a tag, or it goes on to the
  mutating call \<open>m\<close> with success tag \<open>t\<close>. The lemmas \<open>*_body_finish\<close> below show that each
  body of the module has this form.
\<close>

datatype outcome = Raised exn | Refused string | Proceeds mutation string

definition finish :: "'w ec2_client \<Rightarrow> bool \<Rightarrow> outcome \<Rightarrow> 'w ec2_state \<Rightarrow> 'w ec2_state \<times> (exn + string)" where
  "finish api dr oc st =
     (case oc of
        Raised e \<Rightarrow> (st, Inl e)
      | Refused t \<Rightarrow> (st, Inr t)
      | Proceeds m t \<Rightarrow> if dr then (st, Inr ''dry_run_ok'') else perform api m t st)"

text \<open>Lines 23 to 27, the validation of \<open>stop_instances\<close>.\<close>

definition stop_check :: "'w ec2_client \<Rightarrow> 'w \<Rightarrow> string \<Rightarrow> outcome" where
  "stop_check api w i =
     (case first_instance api w i of
        Inl e \<Rightarrow> Raised e
      | Inr inst \<Rightarrow>
          if State_Name inst = ''stopped'' then Refused ''already stopped''
          else Proceeds (StopInstances i) ''stop_requested'')"

text \<open>Lines 41 to 45, the validation of \<open>start_instances\<close>.\<close>

definition start_check :: "'w ec2_client \<Rightarrow> 'w \<Rightarrow> string \<Rightarrow> outcome" where
  "start_check api w i =
     (case first_instance api w i of
        Inl e \<Rightarrow> Raised e
      | Inr inst \<Rightarrow>
          if State_Name inst = ''running'' then Refused ''already running''
          else Proceeds (StartInstances i) ''start_requested'')"

text \<open>\<open>terminate_instances\<close> validates nothing (lines 58 to 63).\<close>

definition terminate_check :: "'w ec2_client \<Rightarrow> 'w \<Rightarrow> string \<Rightarrow> outcome" where
  "terminate_check api w i = Proceeds (TerminateInstances i) ''terminate_requested''"

text \<open>Lines 72 to 75, the validation of \<open>delete_volumes\<close>.\<close>

definition delete_volume_check :: "'w ec2_client \<Rightarrow> 'w \<Rightarrow> string \<Rightarrow> outcome" where
  "delete_volume_check api w v =
     (case first_volume api w v of
        Inl e \<Rightarrow> Raised e
      | Inr vol \<Rightarrow>
          if vol_State vol \<noteq> ''available''
          then Refused (''not_available_state:'' @ vol_State vol)
          else Proceeds (DeleteVolume v) ''deleted'')"

text \<open>Lines 90 to 96, the validation of \<open>release_eips\<close>.\<close>

definition release_eip_check :: "'w ec2_client \<Rightarrow> 'w \<Rightarrow> string \<Rightarrow> outcome" where
  "release_eip_check api w a =
     (case describe_addresses api w a of
        Inl e \<Rightarrow> Raised e
      | Inr [] \<Rightarrow> Refused ''not_found''
      | Inr (addr # _) \<Rightarrow>
          if AssociationId addr \<noteq> None then Refused ''associated''
          else Proceeds (ReleaseAddress a) ''released'')"

text \<open>Lines 111 to 122, the validation of \<open>delete_security_groups\<close>.\<close>

definition delete_security_group_check :: "'w ec2_client \<Rightarrow> 'w \<Rightarrow> string \<Rightarrow> outcome" where
  "delete_security_group_check api w g =
     (case describe_security_groups api w g of
        Inl e \<Rightarrow> Raised e
      | Inr [] \<Rightarrow> Refused ''not_found''
      | Inr (grp # _) \<Rightarrow>
          if GroupName grp = ''default'' then Refused ''default_group_skip''
          else
            (case describe_network_interfaces api w g of
               Inl e \<Rightarrow> Raised e
             | Inr enis \<Rightarrow>
                 if enis \<noteq> [] then Refused ''in_use''
                 else Proceeds (DeleteSecurityGroup g) ''deleted''))"

definition sound_check :: "('w \<Rightarrow> string \<Rightarrow> outcome) \<Rightarrow> bool" where
  "sound_check check =
     (\<forall>w i. case check w i of
        Raised e \<Rightarrow> True
      | Refused t \<Rightarrow> is_refusal t \<and> t \<noteq> ''dry_run_ok''
      | Proceeds m t \<Rightarrow> \<not> is_refusal t \<and> t \<noteq> ''dry_run_ok'')"

text \<open>
  What a dry run reports for a target, given the outcome of its validation: the error of a
  validation that raised, the tag of a refusal, and \<open>dry_run_ok\<close> for a target that passes.
  \<open>dry_run_report\<close> is the whole response of a dry run over a list of targets.
\<close>

definition dry_run_result :: "outcome \<Rightarrow> string" where
  "dry_run_result oc =
     (case oc of
        Raised e \<Rightarrow> ''error:'' @ e
      | Refused t \<Rightarrow> t
      | Proceeds m t \<Rightarrow> ''dry_run_ok'')"

definition dry_run_report :: "string \<Rightarrow> (string \<Rightarrow> outcome) \<Rightarrow> string list \<Rightarrow> resp" where
  "dry_run_report name check ids =
     \<lparr>action = name, requested = ids, results = map (\<lambda>i. (i, dry_run_result (check i))) ids\<rparr>"

text \<open>The six cleanup functions, each with the validation of its loop body.\<close>

definition cleanup_validators ::
  "'w ec2_client \<Rightarrow>
   (('w \<Rightarrow> string \<Rightarrow> outcome) \<times>
    (string list \<Rightarrow> bool \<Rightarrow> 'w ec2_state \<Rightarrow> 'w ec2_state \<times> resp)) list" where
  "cleanup_validators api =
     [(stop_check api, stop_instances api),
      (start_check api, start_instances api),
      (terminate_check api, terminate_instances api),
      (delete_volume_check api, delete_volumes api),
      (release_eip_check api, release_eips api),
      (delete_security_group_check api, delete_security_groups api)]"

text \<open>The tags a dry run can produce.\<close>

definition dry_run_tag :: "string \<Rightarrow> bool" where
  "dry_run_tag t = (t = ''dry_run_ok'' \<or> is_refusal t \<or> is_error t)"

text \<open>The action names the handler knows.\<close>

definition known_actions :: "string list" where
  "known_actions = [''stop_instances'', ''start_instances'', ''terminate_instances'',
                    ''delete_volumes'', ''release_eips'', ''delete_security_groups'']"

section \<open>Concrete instances\<close>

text \<open>
  A small provider on which the properties are evaluated: two instances, two volumes, two
  addresses and three security groups; every mutating call succeeds and is counted.
\<close>

definition fixture_ec2 :: "nat ec2_client" where
  "fixture_ec2 =
     \<lparr>describe_instances = (\<lambda>w i.
        if i = ''i-stopped'' then Inr [\<lparr>Instances = [\<lparr>State_Name = ''stopped''\<rparr>]\<rparr>]
        else if i = ''i-running'' then Inr [\<lparr>Instances = [\<lparr>State_Name = ''running''\<rparr>]\<rparr>]
        else Inl ''InvalidInstanceID.NotFound''),
      describe_volumes = (\<lambda>w v.
        if v = ''vol-1'' then Inr [\<lparr>vol_State = ''in-use''\<rparr>]
        else if v = ''vol-2'' then Inr [\<lparr>vol_State = ''available''\<rparr>]
        else Inl ''InvalidVolume.NotFound''),
      describe_addresses = (\<lambda>w a.
        if a = ''eip-1'' then Inr [\<lparr>AssociationId = Some ''eipassoc-1''\<rparr>]
        else if a = ''eip-2'' then Inr [\<lparr>AssociationId = None\<rparr>]
        else Inr []),
      describe_security_groups = (\<lambda>w g.
        if g = ''sg-default'' then Inr [\<lparr>GroupName = ''default''\<rparr>]
        else if g = ''sg-used'' \<or> g = ''sg-free'' then Inr [\<lparr>GroupName = ''web''\<rparr>]
        else Inr []),
      describe_network_interfaces = (\<lambda>w g.
        if g = ''sg-default'' \<or> g = ''sg-used'' then Inr [''eni-1''] else Inr []),
      mutate = (\<lambda>w m. (Suc w, None))\<rparr>"

definition fixture_state :: "nat ec2_state" where
  "fixture_state = \<lparr>world = 0, issued = []\<rparr>"

definition fixture_db :: "(log_item list, log_item) dynamodb_client" where
  "fixture_db = \<lparr>put_item = (\<lambda>d t item. (d @ [item], None))\<rparr>"

definition fixture_db_failing :: "(log_item list, log_item) dynamodb_client" where
  "fixture_db_failing = \<lparr>put_item = (\<lambda>d t item. (d, Some ''ProvisionedThroughputExceededException''))\<rparr>"

definition fixture_event :: event where
  "fixture_event =
     \<lparr>ev_action = Some ''stop_instances'', ev_dry_run = None,
      ev_instance_ids = Some [''i-running'', ''i-gone'', ''i-stopped''],
      ev_volume_ids = None, ev_allocation_ids = None, ev_group_ids = None\<rparr>"

section \<open>The decision table of the specification\<close>

text \<open>
  Written from the words of the specification, to be compared with \<open>classify\<close>: the window's
  CPU figure is the average of the per-sample averages, its network figure the sum of the
  bytes in and out; no CPU sample gives \<open>NoData\<close>, both figures strictly below their
  thresholds give \<open>Idle\<close>, everything else gives \<open>Active\<close>.
\<close>

datatype verdict_status = NoData | Idle | Active

definition status_name :: "verdict_status \<Rightarrow> string" where
  "status_name v = (case v of NoData \<Rightarrow> ''NoData'' | Idle \<Rightarrow> ''Idle'' | Active \<Rightarrow> ''Active'')"

definition window_avg_cpu :: "cpu_datapoint list \<Rightarrow> real" where
  "window_avg_cpu samples = sum_list (map dp_Average samples) / of_nat (length samples)"

definition window_total_network :: "net_datapoint list \<Rightarrow> net_datapoint list \<Rightarrow> real" where
  "window_total_network net_in net_out = sum_list (map dp_Sum net_in) + sum_list (map dp_Sum net_out)"

definition spec_decision_table :: "cpu_datapoint list \<Rightarrow> net_datapoint list \<Rightarrow> net_datapoint list \<Rightarrow> verdict_status" where
  "spec_decision_table samples net_in net_out =
     (if samples = [] then NoData
      else if window_avg_cpu samples < CPU_THRESHOLD
              \<and> window_total_network net_in net_out < NETWORK_THRESHOLD then Idle
      else Active)"

text \<open>
  The key and status of every \<open>put_item\<close> among the writes of a scan, and the key and status
  of every verdict that carries metrics.
\<close>

definition put_keys :: "detect_call list \<Rightarrow> (string \<times> string) list" where
  "put_keys cs =
     concat (map (\<lambda>c. case c of
                          PutItem item \<Rightarrow> [(item_InstanceId item, item_Status item)]
                        | CreateTags i ts \<Rightarrow> []) cs)"

definition persisted_verdicts :: "instance_info list \<Rightarrow> (string \<times> string) list" where
  "persisted_verdicts vs =
     map (\<lambda>v. (InstanceId v, Status v)) (filter (\<lambda>v. Status v \<noteq> ''NoData'') vs)"

text \<open>
  A metrics source with an idle instance, an instance whose average CPU is exactly the
  threshold, an instance without samples and one whose metrics cannot be read.
\<close>

definition fixture_detect :: "nat detect_client" where
  "fixture_detect =
     \<lparr>cpu_utilization = (\<lambda>w i.
        if i = ''i-idle'' then
          Inr (Some [\<lparr>dp_Average = 3, dp_Maximum = 5\<rparr>, \<lparr>dp_Average = 3.4, dp_Maximum = 9\<rparr>])
        else if i = ''i-edge'' then
          Inr (Some [\<lparr>dp_Average = 8, dp_Maximum = 9\<rparr>, \<lparr>dp_Average = 12, dp_Maximum = 20\<rparr>])
        else if i = ''i-nodata'' then Inr (Some [])
        else Inl ''Throttling''),
      network_in = (\<lambda>w i. Inr (Some [\<lparr>dp_Sum = 200000\<rparr>, \<lparr>dp_Sum = 100000\<rparr>])),
      network_out = (\<lambda>w i. Inr (Some [\<lparr>dp_Sum = 200000\<rparr>])),
      do_write = (\<lambda>w c. (Suc w, None))\<rparr>"

definition fixture_instance :: "string \<Rightarrow> (string \<times> string) list option \<Rightarrow> ec2_Instance" where
  "fixture_instance i ts =
     \<lparr>inst_id = i, instance_type = ''t3.micro'', launch_time = ''2024-01-01T00:00:00'',
      AvailabilityZone = ''eu-west-1a'', tags = ts\<rparr>"

definition fixture_scan :: "nat scan" where
  "fixture_scan = \<lparr>provider = 0, calls = [], idle_instances = [], analyzed_instances = []\<rparr>"

section \<open>Properties of the cleanup module\<close>

subsection \<open>The target loop\<close>



lemma for_each_preserves:
  assumes "\<And>x st. fst (f x st) = st"
  shows "fst (for_each f xs st) = st"
proof (induction xs arbitrary: st)
  case Nil
  show ?case by simp
next
  case (Cons x xs)
  obtain st1 r where step: "f x st = (st1, r)" by (cases "f x st")
  obtain st2 rs where rest: "for_each f xs st1 = (st2, rs)" by (cases "for_each f xs st1")
  have "st1 = st" using assms [of x st] step by simp
  moreover have "st2 = st1" using Cons.IH [of st1] rest by simp
  ultimately show ?case using step rest by simp
qed

lemma for_each_all:
  assumes "\<And>x st. P (snd (f x st))"
  shows "\<forall>r \<in> set (snd (for_each f xs st)). P r"
proof (induction xs arbitrary: st)
  case Nil
  show ?case by simp
next
  case (Cons x xs)
  obtain st1 r where step: "f x st = (st1, r)" by (cases "f x st")
  obtain st2 rs where rest: "for_each f xs st1 = (st2, rs)" by (cases "for_each f xs st1")
  have "P r" using assms [of x st] step by simp
  moreover have "\<forall>r \<in> set rs. P r" using Cons.IH [of st1] rest by simp
  ultimately show ?case using step rest by simp
qed


lemma run_targets_results: "results (snd (run_targets name b ids st)) = snd (for_each (guarded b) ids st)"
  by (simp add: run_targets_def split: prod.splits)

lemma run_targets_state: "fst (run_targets name b ids st) = fst (for_each (guarded b) ids st)"
  by (simp add: run_targets_def split: prod.splits)



subsection \<open>Every body is a validation followed by the dry-run check\<close>

lemma stop_body_finish: "stop_body api dr i st = finish api dr (stop_check api (world st) i) st"
  by (simp add: stop_body_def stop_check_def finish_def split: sum.splits)

lemma start_body_finish: "start_body api dr i st = finish api dr (start_check api (world st) i) st"
  by (simp add: start_body_def start_check_def finish_def split: sum.splits)

lemma terminate_body_finish:
  "terminate_body api dr i st = finish api dr (terminate_check api (world st) i) st"
  by (simp add: terminate_body_def terminate_check_def finish_def)

lemma delete_volume_body_finish:
  "delete_volume_body api dr i st = finish api dr (delete_volume_check api (world st) i) st"
  by (simp add: delete_volume_body_def delete_volume_check_def finish_def split: sum.splits)

lemma release_eip_body_finish:
  "release_eip_body api dr i st = finish api dr (release_eip_check api (world st) i) st"
  by (simp add: release_eip_body_def release_eip_check_def finish_def split: sum.splits list.splits)

lemma delete_security_group_body_finish:
  "delete_security_group_body api dr i st =
     finish api dr (delete_security_group_check api (world st) i) st"
  by (simp add: delete_security_group_body_def delete_security_group_check_def finish_def
      split: sum.splits list.splits)

lemma sound_stop_check: "sound_check (stop_check api)"
  by (simp add: sound_check_def stop_check_def is_refusal_def split: sum.splits)

lemma sound_start_check: "sound_check (start_check api)"
  by (simp add: sound_check_def start_check_def is_refusal_def split: sum.splits)

lemma sound_terminate_check: "sound_check (terminate_check api)"
  by (simp add: sound_check_def terminate_check_def is_refusal_def)

lemma sound_delete_volume_check: "sound_check (delete_volume_check api)"
  by (simp add: sound_check_def delete_volume_check_def is_refusal_def split: sum.splits)

lemma sound_release_eip_check: "sound_check (release_eip_check api)"
  by (simp add: sound_check_def release_eip_check_def is_refusal_def split: sum.splits list.splits)

lemma sound_delete_security_group_check: "sound_check (delete_security_group_check api)"
  by (simp add: sound_check_def delete_security_group_check_def is_refusal_def
      split: sum.splits list.splits)

lemma cleanup_functions_factor:
  assumes "(b, f) \<in> set (cleanup_functions api)"
  obtains check name where
    "sound_check check"
    "\<And>dr i st. b dr i st = finish api dr (check (world st) i) st"
    "\<And>ids dr. f ids dr = run_targets name (b dr) ids"
proof -
  consider "b = stop_body api" "f = stop_instances api"
    | "b = start_body api" "f = start_instances api"
    | "b = terminate_body api" "f = terminate_instances api"
    | "b = delete_volume_body api" "f = delete_volumes api"
    | "b = release_eip_body api" "f = release_eips api"
    | "b = delete_security_group_body api" "f = delete_security_groups api"
    using assms by (auto simp: cleanup_functions_def)
  then show thesis
  proof cases
    case 1
    show thesis
      by (rule that [of "stop_check api" "''stop_instances''"])
        (simp_all add: 1 sound_stop_check stop_body_finish stop_instances_def)
  next
    case 2
    show thesis
      by (rule that [of "start_check api" "''start_instances''"])
        (simp_all add: 2 sound_start_check start_body_finish start_instances_def)
  next
    case 3
    show thesis
      by (rule that [of "terminate_check api" "''terminate_instances''"])
        (simp_all add: 3 sound_terminate_check terminate_body_finish terminate_instances_def)
  next
    case 4
    show thesis
      by (rule that [of "delete_volume_check api" "''delete_volumes''"])
        (simp_all add: 4 sound_delete_volume_check delete_volume_body_finish delete_volumes_def)
  next
    case 5
    show thesis
      by (rule that [of "release_eip_check api" "''release_eips''"])
        (simp_all add: 5 sound_release_eip_check release_eip_body_finish release_eips_def)
  next
    case 6
    show thesis
      by (rule that [of "delete_security_group_check api" "''delete_security_groups''"])
        (simp_all add: 6 sound_delete_security_group_check delete_security_group_body_finish
          delete_security_groups_def)
  qed
qed

lemma guarded_finish:
  "guarded (\<lambda>i st. finish api dr (check (world st) i) st) i st =
     (case check (world st) i of
        Raised e \<Rightarrow> (st, (i, ''error:'' @ e))
      | Refused t \<Rightarrow> (st, (i, t))
      | Proceeds m t \<Rightarrow>
          if dr then (st, (i, ''dry_run_ok''))
          else (fst (issue api m st),
                (i, case snd (issue api m st) of Some e \<Rightarrow> ''error:'' @ e | None \<Rightarrow> t)))"
  by (simp add: guarded_def finish_def perform_def split: outcome.splits prod.splits option.splits)

lemma issued_issue: "issued (fst (issue api m st)) = issued st @ [m]"
  by (simp add: issue_def split: prod.splits)

lemma dry_run_step:
  assumes "sound_check check"
  shows "fst (guarded (\<lambda>i st. finish api True (check (world st) i) st) i st) = st"
    and "snd (snd (guarded (\<lambda>i st. finish api True (check (world st) i) st) i st)) = ''dry_run_ok''
       \<or> is_refusal (snd (snd (guarded (\<lambda>i st. finish api True (check (world st) i) st) i st)))
       \<or> is_error (snd (snd (guarded (\<lambda>i st. finish api True (check (world st) i) st) i st)))"
proof -
  have s: "case check (world st) i of
        Raised e \<Rightarrow> True
      | Refused t \<Rightarrow> is_refusal t \<and> t \<noteq> ''dry_run_ok''
      | Proceeds m t \<Rightarrow> \<not> is_refusal t \<and> t \<noteq> ''dry_run_ok''"
    using assms by (simp add: sound_check_def)
  show "fst (guarded (\<lambda>i st. finish api True (check (world st) i) st) i st) = st"
    by (simp add: guarded_finish split: outcome.splits)
  show "snd (snd (guarded (\<lambda>i st. finish api True (check (world st) i) st) i st)) = ''dry_run_ok''
       \<or> is_refusal (snd (snd (guarded (\<lambda>i st. finish api True (check (world st) i) st) i st)))
       \<or> is_error (snd (snd (guarded (\<lambda>i st. finish api True (check (world st) i) st) i st)))"
    using s by (cases "check (world st) i") (simp_all add: guarded_finish is_error_def)
qed

lemma dry_run_function:
  assumes "(b, f) \<in> set (cleanup_functions api)"
  shows "fst (f ids True st) = st"
    and "\<forall>r \<in> set (results (snd (f ids True st))). dry_run_tag (snd r)"
proof -
  obtain check name where
    c: "sound_check check"
    and b: "\<And>dr i st. b dr i st = finish api dr (check (world st) i) st"
    and f: "\<And>ids dr. f ids dr = run_targets name (b dr) ids"
    using cleanup_functions_factor [OF assms] by blast
  have bt: "b True = (\<lambda>i st. finish api True (check (world st) i) st)"
    by (rule ext, rule ext) (simp add: b)
  show "fst (f ids True st) = st"
    using for_each_preserves [of "guarded (b True)" ids st]
    by (simp add: f run_targets_state bt dry_run_step(1) [OF c])
  have "\<forall>r \<in> set (snd (for_each (guarded (b True)) ids st)). dry_run_tag (snd r)"
    by (rule for_each_all) (simp add: bt dry_run_tag_def dry_run_step(2) [OF c])
  then show "\<forall>r \<in> set (results (snd (f ids True st))). dry_run_tag (snd r)"
    by (simp add: f run_targets_results)
qed

lemmas fixture_simps =
  fixture_ec2_def fixture_state_def fixture_db_def fixture_event_def cleanup_functions_def
  stop_instances_def start_instances_def terminate_instances_def delete_volumes_def
  release_eips_def delete_security_groups_def run_targets_def guarded_def
  stop_body_def start_body_def terminate_body_def delete_volume_body_def release_eip_body_def
  delete_security_group_body_def first_instance_def first_volume_def index0_def perform_def
  issue_def is_refusal_def is_error_def dry_run_tag_def

text \<open>The refusals of the other validators, read off the provider's answers.\<close>

lemma volume_refusal:
  assumes "first_volume api (world st) v = Inr vol" and "vol_State vol \<noteq> ''available''"
  shows "guarded (delete_volume_body api dr) v st =
           (st, (v, ''not_available_state:'' @ vol_State vol))"
  using assms by (simp add: guarded_def delete_volume_body_def)

lemma address_refusals:
  "describe_addresses api (world st) a = Inr [] \<Longrightarrow>
     guarded (release_eip_body api dr) a st = (st, (a, ''not_found''))"
  "describe_addresses api (world st) a = Inr (addr # rest) \<Longrightarrow> AssociationId addr \<noteq> None \<Longrightarrow>
     guarded (release_eip_body api dr) a st = (st, (a, ''associated''))"
  by (auto simp: guarded_def release_eip_body_def)

lemma terminate_dry_run:
  "guarded (terminate_body api True) i st = (st, (i, ''dry_run_ok''))"
  by (simp add: guarded_def terminate_body_def)

text \<open>
  Claim C10. In every cleanup function and for every target, validation runs before the
  dry-run check. If a target's result is a refusal tag under some value of \<open>dry_run\<close>, the
  step gives the very same result under \<open>dry_run = True\<close> and under \<open>dry_run = False\<close>, it
  leaves the state alone, and the tag is not \<open>dry_run_ok\<close>. If a target's result is
  \<open>dry_run_ok\<close>, then \<open>dry_run\<close> is set and the target passes validation: without
  \<open>dry_run\<close> the same step is not refused and reaches its mutating call.
\<close>
theorem validation_precedes_dry_run:
  assumes "(b, f) \<in> set (cleanup_functions api)"
  shows "(is_refusal (snd (snd (guarded (b dr) i st))) \<longrightarrow>
            guarded (b True) i st = guarded (b dr) i st
          \<and> guarded (b False) i st = guarded (b dr) i st
          \<and> fst (guarded (b dr) i st) = st
          \<and> snd (snd (guarded (b dr) i st)) \<noteq> ''dry_run_ok'')
       \<and> (snd (snd (guarded (b dr) i st)) = ''dry_run_ok'' \<longrightarrow>
            dr
          \<and> \<not> is_refusal (snd (snd (guarded (b False) i st)))
          \<and> (\<exists>m. issued (fst (guarded (b False) i st)) = issued st @ [m]))"
proof -
  obtain check name where
    c: "sound_check check"
    and b: "\<And>dr i st. b dr i st = finish api dr (check (world st) i) st"
    and f: "\<And>ids dr. f ids dr = run_targets name (b dr) ids"
    using cleanup_functions_factor [OF assms] by blast
  have bt: "\<And>dr. b dr = (\<lambda>i st. finish api dr (check (world st) i) st)"
    by (rule ext, rule ext) (simp add: b)
  have s: "case check (world st) i of
        Raised e \<Rightarrow> True
      | Refused t \<Rightarrow> is_refusal t \<and> t \<noteq> ''dry_run_ok''
      | Proceeds m t \<Rightarrow> \<not> is_refusal t \<and> t \<noteq> ''dry_run_ok''"
    using c by (simp add: sound_check_def)
  show ?thesis
  proof (cases "check (world st) i")
    case (Raised e)
    then show ?thesis by (simp add: bt guarded_finish is_refusal_def)
  next
    case (Refused t)
    then show ?thesis using s by (simp add: bt guarded_finish)
  next
    case (Proceeds m t)
    have nr: "\<not> is_refusal ''dry_run_ok''" by (simp add: is_refusal_def)
    show ?thesis
    proof (cases dr)
      case True
      then show ?thesis
        using Proceeds s nr
        by (simp add: bt guarded_finish issued_issue is_refusal_def split: option.splits)
    next
      case False
      then show ?thesis
        using Proceeds s
        by (simp add: bt guarded_finish issued_issue is_refusal_def split: option.splits)
    qed
  qed
qed

theorem validation_precedes_dry_run_witness:
  "guarded (delete_volume_body fixture_ec2 True) ''vol-1'' fixture_state
     = (fixture_state, (''vol-1'', ''not_available_state:in-use''))
   \<and> guarded (delete_volume_body fixture_ec2 True) ''vol-2'' fixture_state
     = (fixture_state, (''vol-2'', ''dry_run_ok''))
   \<and> issued (fst (guarded (delete_volume_body fixture_ec2 False) ''vol-2'' fixture_state))
     = [DeleteVolume ''vol-2'']"
proof -
  have m: "(delete_volume_body fixture_ec2, delete_volumes fixture_ec2)
             \<in> set (cleanup_functions fixture_ec2)"
    by (simp add: cleanup_functions_def)
  have r: "is_refusal (snd (snd (guarded (delete_volume_body fixture_ec2 False) ''vol-1'' fixture_state)))"
    by (simp add: fixture_simps)
  have d: "snd (snd (guarded (delete_volume_body fixture_ec2 True) ''vol-2'' fixture_state)) = ''dry_run_ok''"
    by (simp add: fixture_simps)
  have "guarded (delete_volume_body fixture_ec2 True) ''vol-1'' fixture_state
          = guarded (delete_volume_body fixture_ec2 False) ''vol-1'' fixture_state"
    using validation_precedes_dry_run [OF m, of False "''vol-1''" fixture_state] r by simp
  moreover have "\<exists>m. issued (fst (guarded (delete_volume_body fixture_ec2 False) ''vol-2'' fixture_state))
          = issued fixture_state @ [m]"
    using validation_precedes_dry_run [OF m, of True "''vol-2''" fixture_state] d by simp
  ultimately show ?thesis
    by (simp add: fixture_simps)
qed



subsection \<open>Dry runs through the handler\<close>

lemma handler_state:
  "fst (snd (lambda_handler_cleanup api db LOG_TABLE clock ev st d)) =
     fst (dispatch api ev (case ev_dry_run ev of None \<Rightarrow> True | Some b \<Rightarrow> b)
            \<lparr>res_action = ev_action ev, res_timestamp = fst clock,
             res_dry_run = (case ev_dry_run ev of None \<Rightarrow> True | Some b \<Rightarrow> b),
             res_details = None, res_error = None\<rparr> st)"
  by (simp add: lambda_handler_cleanup_def Let_def split: prod.splits)

lemma handler_response:
  "fst (lambda_handler_cleanup api db LOG_TABLE clock ev st d) =
     \<lparr>statusCode = 200,
      body = snd (dispatch api ev (case ev_dry_run ev of None \<Rightarrow> True | Some b \<Rightarrow> b)
            \<lparr>res_action = ev_action ev, res_timestamp = fst clock,
             res_dry_run = (case ev_dry_run ev of None \<Rightarrow> True | Some b \<Rightarrow> b),
             res_details = None, res_error = None\<rparr> st)\<rparr>"
  by (simp add: lambda_handler_cleanup_def Let_def split: prod.splits)

lemma dry_run_details:
  assumes "(b, f) \<in> set (cleanup_functions api)"
  shows "fst (with_details result (f ids True st)) = st"
    and "\<forall>dt. res_details (snd (with_details result (f ids True st))) = Some dt
            \<longrightarrow> (\<forall>r \<in> set (results dt). dry_run_tag (snd r))"
  using dry_run_function [OF assms, of ids st] by (simp_all add: with_details_def)

lemma dry_run_dispatch:
  assumes "res_details result = None"
  shows "fst (dispatch api ev True result st) = st"
    and "\<forall>dt. res_details (snd (dispatch api ev True result st)) = Some dt
            \<longrightarrow> (\<forall>r \<in> set (results dt). dry_run_tag (snd r))"
proof -
  have m: "(stop_body api, stop_instances api) \<in> set (cleanup_functions api)"
    "(start_body api, start_instances api) \<in> set (cleanup_functions api)"
    "(terminate_body api, terminate_instances api) \<in> set (cleanup_functions api)"
    "(delete_volume_body api, delete_volumes api) \<in> set (cleanup_functions api)"
    "(release_eip_body api, release_eips api) \<in> set (cleanup_functions api)"
    "(delete_security_group_body api, delete_security_groups api) \<in> set (cleanup_functions api)"
    by (simp_all add: cleanup_functions_def)
  show "fst (dispatch api ev True result st) = st"
    by (simp add: dispatch_def Let_def m [THEN dry_run_details(1)])
  show "\<forall>dt. res_details (snd (dispatch api ev True result st)) = Some dt
            \<longrightarrow> (\<forall>r \<in> set (results dt). dry_run_tag (snd r))"
    using assms
    by (simp add: dispatch_def Let_def m [THEN dry_run_details(2)])
qed

lemma for_each_fixed:
  assumes "\<And>x. f x st = (st, g x)"
  shows "for_each f xs st = (st, map g xs)"
  by (induction xs) (simp_all add: assms)

lemma run_targets_dry_run:
  assumes "\<And>i st. b i st = finish api True (check (world st) i) st"
  shows "run_targets name b ids st = (st, dry_run_report name (check (world st)) ids)"
proof -
  have bt: "b = (\<lambda>i st. finish api True (check (world st) i) st)"
    by (rule ext, rule ext) (simp add: assms)
  have step: "guarded b i st = (st, (i, dry_run_result (check (world st) i)))" for i
    by (simp add: bt guarded_finish dry_run_result_def split: outcome.splits)
  show ?thesis
    using for_each_fixed [of "guarded b" st "\<lambda>i. (i, dry_run_result (check (world st) i))" ids]
    by (simp add: run_targets_def dry_run_report_def step)
qed

lemma dry_run_reports:
  "stop_instances api ids True st = (st, dry_run_report ''stop_instances'' (stop_check api (world st)) ids)"
  "start_instances api ids True st = (st, dry_run_report ''start_instances'' (start_check api (world st)) ids)"
  "terminate_instances api ids True st =
     (st, dry_run_report ''terminate_instances'' (terminate_check api (world st)) ids)"
  "delete_volumes api ids True st =
     (st, dry_run_report ''delete_volumes'' (delete_volume_check api (world st)) ids)"
  "release_eips api ids True st = (st, dry_run_report ''release_eips'' (release_eip_check api (world st)) ids)"
  "delete_security_groups api ids True st =
     (st, dry_run_report ''delete_security_groups'' (delete_security_group_check api (world st)) ids)"
proof -
  show "stop_instances api ids True st =
          (st, dry_run_report ''stop_instances'' (stop_check api (world st)) ids)"
    unfolding stop_instances_def
    by (rule run_targets_dry_run [where api = api and check = "stop_check api"])
      (rule stop_body_finish)
  show "start_instances api ids True st =
          (st, dry_run_report ''start_instances'' (start_check api (world st)) ids)"
    unfolding start_instances_def
    by (rule run_targets_dry_run [where api = api and check = "start_check api"])
      (rule start_body_finish)
  show "terminate_instances api ids True st =
          (st, dry_run_report ''terminate_instances'' (terminate_check api (world st)) ids)"
    unfolding terminate_instances_def
    by (rule run_targets_dry_run [where api = api and check = "terminate_check api"])
      (rule terminate_body_finish)
  show "delete_volumes api ids True st =
          (st, dry_run_report ''delete_volumes'' (delete_volume_check api (world st)) ids)"
    unfolding delete_volumes_def
    by (rule run_targets_dry_run [where api = api and check = "delete_volume_check api"])
      (rule delete_volume_body_finish)
  show "release_eips api ids True st =
          (st, dry_run_report ''release_eips'' (release_eip_check api (world st)) ids)"
    unfolding release_eips_def
    by (rule run_targets_dry_run [where api = api and check = "release_eip_check api"])
      (rule release_eip_body_finish)
  show "delete_security_groups api ids True st =
          (st, dry_run_report ''delete_security_groups''
                 (delete_security_group_check api (world st)) ids)"
    unfolding delete_security_groups_def
    by (rule run_targets_dry_run [where api = api and check = "delete_security_group_check api"])
      (rule delete_security_group_body_finish)
qed

lemma run_targets_real_single:
  assumes "\<And>i st. b i st = finish api False (check (world st) i) st"
  shows "(check (world st) i = Raised e \<longrightarrow>
            fst (run_targets name b [i] st) = st
          \<and> results (snd (run_targets name b [i] st)) = [(i, ''error:'' @ e)])
       \<and> (check (world st) i = Refused t \<longrightarrow>
            fst (run_targets name b [i] st) = st
          \<and> results (snd (run_targets name b [i] st)) = [(i, t)])
       \<and> (check (world st) i = Proceeds m t \<longrightarrow>
            issued (fst (run_targets name b [i] st)) = issued st @ [m])"
proof -
  have bt: "b = (\<lambda>i st. finish api False (check (world st) i) st)"
    by (rule ext, rule ext) (simp add: assms)
  show ?thesis
    by (simp add: run_targets_def bt guarded_finish issued_issue split: prod.splits)
qed

lemma validators_decide_real_run:
  assumes "(c, f) \<in> set (cleanup_validators api)"
  shows "(c (world st) i = Raised e \<longrightarrow>
            fst (f [i] False st) = st \<and> results (snd (f [i] False st)) = [(i, ''error:'' @ e)])
       \<and> (c (world st) i = Refused t \<longrightarrow>
            fst (f [i] False st) = st \<and> results (snd (f [i] False st)) = [(i, t)])
       \<and> (c (world st) i = Proceeds m t \<longrightarrow>
            issued (fst (f [i] False st)) = issued st @ [m])"
proof -
  consider "c = stop_check api" "f = stop_instances api"
    | "c = start_check api" "f = start_instances api"
    | "c = terminate_check api" "f = terminate_instances api"
    | "c = delete_volume_check api" "f = delete_volumes api"
    | "c = release_eip_check api" "f = release_eips api"
    | "c = delete_security_group_check api" "f = delete_security_groups api"
    using assms by (auto simp: cleanup_validators_def)
  then show ?thesis
  proof cases
    case 1
    show ?thesis
      unfolding 1 stop_instances_def by (rule run_targets_real_single [where api = api and check = "stop_check api"])
        (rule stop_body_finish)
  next
    case 2
    show ?thesis
      unfolding 2 start_instances_def by (rule run_targets_real_single [where api = api and check = "start_check api"])
        (rule start_body_finish)
  next
    case 3
    show ?thesis
      unfolding 3 terminate_instances_def
      by (rule run_targets_real_single [where api = api and check = "terminate_check api"])
        (rule terminate_body_finish)
  next
    case 4
    show ?thesis
      unfolding 4 delete_volumes_def
      by (rule run_targets_real_single [where api = api and check = "delete_volume_check api"])
        (rule delete_volume_body_finish)
  next
    case 5
    show ?thesis
      unfolding 5 release_eips_def by (rule run_targets_real_single [where api = api and check = "release_eip_check api"])
        (rule release_eip_body_finish)
  next
    case 6
    show ?thesis
      unfolding 6 delete_security_groups_def
      by (rule run_targets_real_single [where api = api and check = "delete_security_group_check api"])
        (rule delete_security_group_body_finish)
  qed
qed

lemma dry_run_details_known:
  "ev_action ev = Some ''stop_instances'' \<Longrightarrow>
   res_details (snd (dispatch api ev True result st)) =
     Some (dry_run_report ''stop_instances'' (stop_check api (world st)) (get_list (ev_instance_ids ev)))"
  "ev_action ev = Some ''start_instances'' \<Longrightarrow>
   res_details (snd (dispatch api ev True result st)) =
     Some (dry_run_report ''start_instances'' (start_check api (world st)) (get_list (ev_instance_ids ev)))"
  "ev_action ev = Some ''terminate_instances'' \<Longrightarrow>
   res_details (snd (dispatch api ev True result st)) =
     Some (dry_run_report ''terminate_instances'' (terminate_check api (world st))
             (get_list (ev_instance_ids ev)))"
  "ev_action ev = Some ''delete_volumes'' \<Longrightarrow>
   res_details (snd (dispatch api ev True result st)) =
     Some (dry_run_report ''delete_volumes'' (delete_volume_check api (world st))
             (get_list (ev_volume_ids ev)))"
  "ev_action ev = Some ''release_eips'' \<Longrightarrow>
   res_details (snd (dispatch api ev True result st)) =
     Some (dry_run_report ''release_eips'' (release_eip_check api (world st))
             (get_list (ev_allocation_ids ev)))"
  "ev_action ev = Some ''delete_security_groups'' \<Longrightarrow>
   res_details (snd (dispatch api ev True result st)) =
     Some (dry_run_report ''delete_security_groups'' (delete_security_group_check api (world st))
             (get_list (ev_group_ids ev)))"
  by (simp_all add: dispatch_def Let_def with_details_def dry_run_reports)

text \<open>
  Claim C2. For every request whose \<open>dry_run\<close> is true (or absent, which defaults to true),
  the handler issues no mutating call and leaves the provider state alone, and every result
  entry is \<open>dry_run_ok\<close>, a refusal tag of a state validator, or \<open>error:...\<close>. More
  precisely, for each of the six actions the response lists every requested target, in
  order, with the result of its validation against the provider: \<open>error:e\<close> when the
  validation raises \<open>e\<close>, the refusal tag when the validator refuses, and \<open>dry_run_ok\<close> in
  every other case. The validation is the one of the real run: on a target for which it
  raises or refuses, the request without \<open>dry_run\<close> reports the same entry and issues no
  call, and on a target that passes, the request without \<open>dry_run\<close> issues the mutating call.
\<close>

theorem dry_run_issues_no_mutation:
  assumes "ev_dry_run ev \<noteq> Some False"
  shows "fst (snd (lambda_handler_cleanup api db LOG_TABLE clock ev st d)) = st
       \<and> (\<forall>dt. res_details (body (fst (lambda_handler_cleanup api db LOG_TABLE clock ev st d))) = Some dt
            \<longrightarrow> (\<forall>r \<in> set (results dt). dry_run_tag (snd r)))
       \<and> (ev_action ev = Some ''stop_instances'' \<longrightarrow>
            res_details (body (fst (lambda_handler_cleanup api db LOG_TABLE clock ev st d))) =
              Some (dry_run_report ''stop_instances'' (stop_check api (world st))
                      (get_list (ev_instance_ids ev))))
       \<and> (ev_action ev = Some ''start_instances'' \<longrightarrow>
            res_details (body (fst (lambda_handler_cleanup api db LOG_TABLE clock ev st d))) =
              Some (dry_run_report ''start_instances'' (start_check api (world st))
                      (get_list (ev_instance_ids ev))))
       \<and> (ev_action ev = Some ''terminate_instances'' \<longrightarrow>
            res_details (body (fst (lambda_handler_cleanup api db LOG_TABLE clock ev st d))) =
              Some (dry_run_report ''terminate_instances'' (terminate_check api (world st))
                      (get_list (ev_instance_ids ev))))
       \<and> (ev_action ev = Some ''delete_volumes'' \<longrightarrow>
            res_details (body (fst (lambda_handler_cleanup api db LOG_TABLE clock ev st d))) =
              Some (dry_run_report ''delete_volumes'' (delete_volume_check api (world st))
                      (get_list (ev_volume_ids ev))))
       \<and> (ev_action ev = Some ''release_eips'' \<longrightarrow>
            res_details (body (fst (lambda_handler_cleanup api db LOG_TABLE clock ev st d))) =
              Some (dry_run_report ''release_eips'' (release_eip_check api (world st))
                      (get_list (ev_allocation_ids ev))))
       \<and> (ev_action ev = Some ''delete_security_groups'' \<longrightarrow>
            res_details (body (fst (lambda_handler_cleanup api db LOG_TABLE clock ev st d))) =
              Some (dry_run_report ''delete_security_groups''
                      (delete_security_group_check api (world st)) (get_list (ev_group_ids ev))))
       \<and> ((c, f) \<in> set (cleanup_validators api) \<longrightarrow>
            (c (world st) i = Raised e \<longrightarrow>
               fst (f [i] False st) = st \<and> results (snd (f [i] False st)) = [(i, ''error:'' @ e)])
          \<and> (c (world st) i = Refused t \<longrightarrow>
               fst (f [i] False st) = st \<and> results (snd (f [i] False st)) = [(i, t)])
          \<and> (c (world st) i = Proceeds m t \<longrightarrow>
               issued (fst (f [i] False st)) = issued st @ [m]))"
proof -
  have dr: "(case ev_dry_run ev of None \<Rightarrow> True | Some b \<Rightarrow> b) = True"
    using assms by (cases "ev_dry_run ev") auto
  let ?result = "\<lparr>res_action = ev_action ev, res_timestamp = fst clock, res_dry_run = True,
                   res_details = None, res_error = None\<rparr>"
  let ?H = "lambda_handler_cleanup api db LOG_TABLE clock ev st d"
  have n: "res_details ?result = None" by simp
  have unchanged: "fst (snd ?H) = st
       \<and> (\<forall>dt. res_details (body (fst ?H)) = Some dt
            \<longrightarrow> (\<forall>r \<in> set (results dt). dry_run_tag (snd r)))"
    using dry_run_dispatch(1) [OF n, of api ev st] dry_run_dispatch(2) [OF n, of api ev st]
    by (simp add: handler_state handler_response dr)
  have details: "res_details (body (fst ?H)) = res_details (snd (dispatch api ev True ?result st))"
    by (simp add: handler_response dr)
  note known = dry_run_details_known [of ev api ?result st, folded details]
  have real: "(c, f) \<in> set (cleanup_validators api) \<longrightarrow>
            (c (world st) i = Raised e \<longrightarrow>
               fst (f [i] False st) = st \<and> results (snd (f [i] False st)) = [(i, ''error:'' @ e)])
          \<and> (c (world st) i = Refused t \<longrightarrow>
               fst (f [i] False st) = st \<and> results (snd (f [i] False st)) = [(i, t)])
          \<and> (c (world st) i = Proceeds m t \<longrightarrow>
               issued (fst (f [i] False st)) = issued st @ [m])"
    using validators_decide_real_run [of c f api st i e t m] by blast
  show ?thesis
    using unchanged known real by blast
qed

lemmas handler_simps =
  lambda_handler_cleanup_def dispatch_def with_details_def get_list_def py_str_def
  log_action_def Let_def

theorem dry_run_issues_no_mutation_witness:
  "ev_dry_run fixture_event \<noteq> Some False
   \<and> fst (snd (lambda_handler_cleanup fixture_ec2 fixture_db ''EC2CleanupLogs''
                 (''t1'', ''t2'', ''t3'') fixture_event fixture_state [])) = fixture_state
   \<and> res_details (body (fst (lambda_handler_cleanup fixture_ec2 fixture_db ''EC2CleanupLogs''
                 (''t1'', ''t2'', ''t3'') fixture_event fixture_state []))) =
       Some \<lparr>action = ''stop_instances'',
             requested = [''i-running'', ''i-gone'', ''i-stopped''],
             results = [(''i-running'', ''dry_run_ok''),
                        (''i-gone'', ''error:InvalidInstanceID.NotFound''),
                        (''i-stopped'', ''already stopped'')]\<rparr>
   \<and> res_details (body (fst (lambda_handler_cleanup fixture_ec2 fixture_db ''EC2CleanupLogs''
                 (''t1'', ''t2'', ''t3'') (fixture_event\<lparr>ev_action := Some ''terminate_instances''\<rparr>)
                 fixture_state []))) =
       Some \<lparr>action = ''terminate_instances'',
             requested = [''i-running'', ''i-gone'', ''i-stopped''],
             results = [(''i-running'', ''dry_run_ok''),
                        (''i-gone'', ''dry_run_ok''),
                        (''i-stopped'', ''dry_run_ok'')]\<rparr>
   \<and> issued (fst (stop_instances fixture_ec2 [''i-running''] False fixture_state))
       = [StopInstances ''i-running'']
   \<and> results (snd (stop_instances fixture_ec2 [''i-stopped''] False fixture_state))
       = [(''i-stopped'', ''already stopped'')]
   \<and> results (snd (stop_instances fixture_ec2 [''i-gone''] False fixture_state))
       = [(''i-gone'', ''error:InvalidInstanceID.NotFound'')]"
proof -
  have h: "ev_dry_run fixture_event \<noteq> Some False"
    by (simp add: fixture_event_def)
  have h': "ev_dry_run (fixture_event\<lparr>ev_action := Some ''terminate_instances''\<rparr>) \<noteq> Some False"
    by (simp add: fixture_event_def)
  have a: "ev_action fixture_event = Some ''stop_instances''"
    by (simp add: fixture_event_def)
  have a': "ev_action (fixture_event\<lparr>ev_action := Some ''terminate_instances''\<rparr>)
              = Some ''terminate_instances''"
    by simp
  have v: "(stop_check fixture_ec2, stop_instances fixture_ec2) \<in> set (cleanup_validators fixture_ec2)"
    by (simp add: cleanup_validators_def)
  have r: "dry_run_report ''stop_instances'' (stop_check fixture_ec2 (world fixture_state))
             (get_list (ev_instance_ids fixture_event)) =
           \<lparr>action = ''stop_instances'',
             requested = [''i-running'', ''i-gone'', ''i-stopped''],
             results = [(''i-running'', ''dry_run_ok''),
                        (''i-gone'', ''error:InvalidInstanceID.NotFound''),
                        (''i-stopped'', ''already stopped'')]\<rparr>"
    by (simp add: dry_run_report_def dry_run_result_def stop_check_def first_instance_def
        index0_def get_list_def fixture_event_def fixture_ec2_def fixture_state_def)
  have r': "dry_run_report ''terminate_instances'' (terminate_check fixture_ec2 (world fixture_state))
             (get_list (ev_instance_ids (fixture_event\<lparr>ev_action := Some ''terminate_instances''\<rparr>))) =
           \<lparr>action = ''terminate_instances'',
             requested = [''i-running'', ''i-gone'', ''i-stopped''],
             results = [(''i-running'', ''dry_run_ok''),
                        (''i-gone'', ''dry_run_ok''),
                        (''i-stopped'', ''dry_run_ok'')]\<rparr>"
    by (simp add: dry_run_report_def dry_run_result_def terminate_check_def get_list_def
        fixture_event_def)
  have p: "stop_check fixture_ec2 (world fixture_state) ''i-running''
             = Proceeds (StopInstances ''i-running'') ''stop_requested''"
    by (simp add: stop_check_def first_instance_def index0_def fixture_ec2_def)
  have q: "stop_check fixture_ec2 (world fixture_state) ''i-stopped'' = Refused ''already stopped''"
    by (simp add: stop_check_def first_instance_def index0_def fixture_ec2_def)
  have g: "stop_check fixture_ec2 (world fixture_state) ''i-gone'' = Raised ''InvalidInstanceID.NotFound''"
    by (simp add: stop_check_def first_instance_def index0_def fixture_ec2_def)
  note t1 = dry_run_issues_no_mutation [OF h, where api = fixture_ec2 and db = fixture_db
        and LOG_TABLE = "''EC2CleanupLogs''" and clock = "(''t1'', ''t2'', ''t3'')"
        and st = fixture_state and d = "[]" and c = "stop_check fixture_ec2"
        and f = "stop_instances fixture_ec2" and i = "''i-running''"
        and m = "StopInstances ''i-running''" and t = "''stop_requested''"
        and e = "''none''"]
  note t2 = dry_run_issues_no_mutation [OF h, where api = fixture_ec2 and db = fixture_db
        and LOG_TABLE = "''EC2CleanupLogs''" and clock = "(''t1'', ''t2'', ''t3'')"
        and st = fixture_state and d = "[]" and c = "stop_check fixture_ec2"
        and f = "stop_instances fixture_ec2" and i = "''i-stopped''"
        and m = "StopInstances ''i-stopped''" and t = "''already stopped''"
        and e = "''none''"]
  note t3 = dry_run_issues_no_mutation [OF h, where api = fixture_ec2 and db = fixture_db
        and LOG_TABLE = "''EC2CleanupLogs''" and clock = "(''t1'', ''t2'', ''t3'')"
        and st = fixture_state and d = "[]" and c = "stop_check fixture_ec2"
        and f = "stop_instances fixture_ec2" and i = "''i-gone''"
        and m = "StopInstances ''i-gone''" and t = "''none''"
        and e = "''InvalidInstanceID.NotFound''"]
  note t4 = dry_run_issues_no_mutation [OF h', where api = fixture_ec2 and db = fixture_db
        and LOG_TABLE = "''EC2CleanupLogs''" and clock = "(''t1'', ''t2'', ''t3'')"
        and st = fixture_state and d = "[]" and c = "stop_check fixture_ec2"
        and f = "stop_instances fixture_ec2" and i = "''i-gone''"
        and m = "StopInstances ''i-gone''" and t = "''none''"
        and e = "''none''"]
  have 1: "fst (snd (lambda_handler_cleanup fixture_ec2 fixture_db ''EC2CleanupLogs''
                 (''t1'', ''t2'', ''t3'') fixture_event fixture_state [])) = fixture_state"
    using t1 by blast
  have 2: "res_details (body (fst (lambda_handler_cleanup fixture_ec2 fixture_db ''EC2CleanupLogs''
                 (''t1'', ''t2'', ''t3'') fixture_event fixture_state []))) =
       Some (dry_run_report ''stop_instances'' (stop_check fixture_ec2 (world fixture_state))
             (get_list (ev_instance_ids fixture_event)))"
    using t1 a by blast
  have 3: "issued (fst (stop_instances fixture_ec2 [''i-running''] False fixture_state))
       = issued fixture_state @ [StopInstances ''i-running'']"
    using t1 v p by blast
  have 4: "results (snd (stop_instances fixture_ec2 [''i-stopped''] False fixture_state))
       = [(''i-stopped'', ''already stopped'')]"
    using t2 v q by blast
  have 5: "results (snd (stop_instances fixture_ec2 [''i-gone''] False fixture_state))
       = [(''i-gone'', ''error:'' @ ''InvalidInstanceID.NotFound'')]"
    using t3 v g by blast
  have 6: "res_details (body (fst (lambda_handler_cleanup fixture_ec2 fixture_db ''EC2CleanupLogs''
                 (''t1'', ''t2'', ''t3'') (fixture_event\<lparr>ev_action := Some ''terminate_instances''\<rparr>)
                 fixture_state []))) =
       Some (dry_run_report ''terminate_instances'' (terminate_check fixture_ec2 (world fixture_state))
             (get_list (ev_instance_ids (fixture_event\<lparr>ev_action := Some ''terminate_instances''\<rparr>))))"
    using t4 a' by blast
  show ?thesis
    using h 1 2 3 4 5 6 r r' by (simp add: fixture_state_def)
qed

subsection \<open>Validators\<close>

text \<open>
  Claim C5. Deleting a security group: a group id for which the provider returns no group
  yields \<open>not_found\<close>; a group named \<open>default\<close> yields \<open>default_group_skip\<close> whatever its
  usage; a non-default group that a network interface references yields \<open>in_use\<close>; in these
  three cases no call is issued. Only a found, non-default group without referencing
  network interface reaches \<open>dry_run_ok\<close> or the delete call.
\<close>
theorem security_group_refusals:
  "(describe_security_groups api (world st) g = Inr [] \<longrightarrow>
      guarded (delete_security_group_body api dr) g st = (st, (g, ''not_found'')))
   \<and> (describe_security_groups api (world st) g = Inr (grp # rest) \<and> GroupName grp = ''default'' \<longrightarrow>
      guarded (delete_security_group_body api dr) g st = (st, (g, ''default_group_skip'')))
   \<and> (describe_security_groups api (world st) g = Inr (grp # rest) \<and> GroupName grp \<noteq> ''default''
        \<and> describe_network_interfaces api (world st) g = Inr (eni # enis) \<longrightarrow>
      guarded (delete_security_group_body api dr) g st = (st, (g, ''in_use'')))
   \<and> (snd (snd (guarded (delete_security_group_body api dr) g st)) = ''dry_run_ok''
        \<or> issued (fst (guarded (delete_security_group_body api dr) g st)) \<noteq> issued st \<longrightarrow>
      (\<exists>grp rest. describe_security_groups api (world st) g = Inr (grp # rest)
                  \<and> GroupName grp \<noteq> ''default'')
      \<and> describe_network_interfaces api (world st) g = Inr [])"
proof -
  have bt: "delete_security_group_body api dr =
              (\<lambda>i st. finish api dr (delete_security_group_check api (world st) i) st)"
    by (rule ext, rule ext) (simp add: delete_security_group_body_finish)
  note eq = guarded_finish [of api dr "delete_security_group_check api" g st, folded bt]
  have 1: "describe_security_groups api (world st) g = Inr [] \<longrightarrow>
      guarded (delete_security_group_body api dr) g st = (st, (g, ''not_found''))"
    by (simp add: eq delete_security_group_check_def)
  have 2: "describe_security_groups api (world st) g = Inr (grp # rest) \<and> GroupName grp = ''default'' \<longrightarrow>
      guarded (delete_security_group_body api dr) g st = (st, (g, ''default_group_skip''))"
    by (simp add: eq delete_security_group_check_def)
  have 3: "describe_security_groups api (world st) g = Inr (grp # rest) \<and> GroupName grp \<noteq> ''default''
        \<and> describe_network_interfaces api (world st) g = Inr (eni # enis) \<longrightarrow>
      guarded (delete_security_group_body api dr) g st = (st, (g, ''in_use''))"
    by (simp add: eq delete_security_group_check_def)
  have 4: "snd (snd (guarded (delete_security_group_body api dr) g st)) = ''dry_run_ok''
        \<or> issued (fst (guarded (delete_security_group_body api dr) g st)) \<noteq> issued st \<longrightarrow>
      (\<exists>grp rest. describe_security_groups api (world st) g = Inr (grp # rest)
                  \<and> GroupName grp \<noteq> ''default'')
      \<and> describe_network_interfaces api (world st) g = Inr []"
  proof (cases "describe_security_groups api (world st) g")
    case (Inl e)
    then show ?thesis by (simp add: eq delete_security_group_check_def)
  next
    case (Inr gids)
    show ?thesis
    proof (cases gids)
      case Nil
      then show ?thesis using Inr by (simp add: eq delete_security_group_check_def)
    next
      case (Cons grp0 rest0)
      show ?thesis
      proof (cases "GroupName grp0 = ''default''")
        case True
        then show ?thesis using Inr Cons by (simp add: eq delete_security_group_check_def)
      next
        case False
        show ?thesis
        proof (cases "describe_network_interfaces api (world st) g")
          case (Inl e)
          then show ?thesis
            using Inr Cons False by (simp add: eq delete_security_group_check_def)
        next
          case enis: (Inr es)
          then show ?thesis
            using Inr Cons False by (cases es) (simp_all add: eq delete_security_group_check_def)
        qed
      qed
    qed
  qed
  show ?thesis using 1 2 3 4 by blast
qed

theorem security_group_refusals_witness:
  "guarded (delete_security_group_body fixture_ec2 False) ''sg-missing'' fixture_state
     = (fixture_state, (''sg-missing'', ''not_found''))
   \<and> guarded (delete_security_group_body fixture_ec2 False) ''sg-default'' fixture_state
     = (fixture_state, (''sg-default'', ''default_group_skip''))
   \<and> guarded (delete_security_group_body fixture_ec2 False) ''sg-used'' fixture_state
     = (fixture_state, (''sg-used'', ''in_use''))
   \<and> snd (snd (guarded (delete_security_group_body fixture_ec2 True) ''sg-free'' fixture_state))
     = ''dry_run_ok''
   \<and> describe_network_interfaces fixture_ec2 (world fixture_state) ''sg-free'' = Inr []"
proof -
  have a: "describe_security_groups fixture_ec2 (world fixture_state) ''sg-missing'' = Inr []"
    by (simp add: fixture_ec2_def)
  have b: "describe_security_groups fixture_ec2 (world fixture_state) ''sg-default''
             = Inr (\<lparr>GroupName = ''default''\<rparr> # [])"
    by (simp add: fixture_ec2_def)
  have c: "describe_security_groups fixture_ec2 (world fixture_state) ''sg-used''
             = Inr (\<lparr>GroupName = ''web''\<rparr> # [])
           \<and> GroupName \<lparr>GroupName = ''web''\<rparr> \<noteq> ''default''
           \<and> describe_network_interfaces fixture_ec2 (world fixture_state) ''sg-used''
             = Inr (''eni-1'' # [])"
    by (simp add: fixture_ec2_def)
  have d: "snd (snd (guarded (delete_security_group_body fixture_ec2 True) ''sg-free'' fixture_state))
     = ''dry_run_ok''"
    by (simp add: fixture_simps)
  have 1: "guarded (delete_security_group_body fixture_ec2 False) ''sg-missing'' fixture_state
     = (fixture_state, (''sg-missing'', ''not_found''))"
    using a security_group_refusals [of fixture_ec2 fixture_state "''sg-missing''" False]
    by blast
  have 2: "guarded (delete_security_group_body fixture_ec2 False) ''sg-default'' fixture_state
     = (fixture_state, (''sg-default'', ''default_group_skip''))"
    using b security_group_refusals [of fixture_ec2 fixture_state "''sg-default''" False
         "\<lparr>GroupName = ''default''\<rparr>" "[]"]
    by simp
  have 3: "guarded (delete_security_group_body fixture_ec2 False) ''sg-used'' fixture_state
     = (fixture_state, (''sg-used'', ''in_use''))"
    using c security_group_refusals [of fixture_ec2 fixture_state "''sg-used''" False
         "\<lparr>GroupName = ''web''\<rparr>" "[]" "''eni-1''" "[]"]
    by blast
  have 4: "describe_network_interfaces fixture_ec2 (world fixture_state) ''sg-free'' = Inr []"
    using d security_group_refusals [of fixture_ec2 fixture_state "''sg-free''" True]
    by blast
  show ?thesis using 1 2 3 4 d by blast
qed

text \<open>
  Claim C6. A stop request for an instance whose current state is \<open>stopped\<close> yields
  \<open>already stopped\<close> and issues no call, so the state is unchanged and repeating the
  request gives \<open>already stopped\<close> again; the same holds for a start request on a
  \<open>running\<close> instance, with \<open>already running\<close>.
\<close>
theorem stop_start_idempotent:
  "(first_instance api (world st) i = Inr inst \<and> State_Name inst = ''stopped'' \<longrightarrow>
      guarded (stop_body api dr) i st = (st, (i, ''already stopped''))
    \<and> stop_instances api [i] dr st =
        (st, \<lparr>action = ''stop_instances'', requested = [i], results = [(i, ''already stopped'')]\<rparr>)
    \<and> stop_instances api [i] dr (fst (stop_instances api [i] dr st)) =
        (st, \<lparr>action = ''stop_instances'', requested = [i], results = [(i, ''already stopped'')]\<rparr>))
   \<and> (first_instance api (world st) i = Inr inst \<and> State_Name inst = ''running'' \<longrightarrow>
      guarded (start_body api dr) i st = (st, (i, ''already running''))
    \<and> start_instances api [i] dr st =
        (st, \<lparr>action = ''start_instances'', requested = [i], results = [(i, ''already running'')]\<rparr>)
    \<and> start_instances api [i] dr (fst (start_instances api [i] dr st)) =
        (st, \<lparr>action = ''start_instances'', requested = [i], results = [(i, ''already running'')]\<rparr>))"
proof -
  have stop: "guarded (stop_body api dr) i st = (st, (i, ''already stopped''))"
    if "first_instance api (world st) i = Inr inst" "State_Name inst = ''stopped''"
    using that by (simp add: guarded_def stop_body_def)
  have start: "guarded (start_body api dr) i st = (st, (i, ''already running''))"
    if "first_instance api (world st) i = Inr inst" "State_Name inst = ''running''"
    using that by (simp add: guarded_def start_body_def)
  show ?thesis
    using stop start by (simp add: stop_instances_def start_instances_def run_targets_def)
qed

theorem stop_start_idempotent_witness:
  "stop_instances fixture_ec2 [''i-stopped''] False fixture_state =
     (fixture_state, \<lparr>action = ''stop_instances'', requested = [''i-stopped''],
                      results = [(''i-stopped'', ''already stopped'')]\<rparr>)
   \<and> stop_instances fixture_ec2 [''i-stopped''] False
        (fst (stop_instances fixture_ec2 [''i-stopped''] False fixture_state)) =
     (fixture_state, \<lparr>action = ''stop_instances'', requested = [''i-stopped''],
                      results = [(''i-stopped'', ''already stopped'')]\<rparr>)
   \<and> start_instances fixture_ec2 [''i-running''] False fixture_state =
     (fixture_state, \<lparr>action = ''start_instances'', requested = [''i-running''],
                      results = [(''i-running'', ''already running'')]\<rparr>)"
proof -
  have a: "first_instance fixture_ec2 (world fixture_state) ''i-stopped'' = Inr \<lparr>State_Name = ''stopped''\<rparr>
           \<and> State_Name \<lparr>State_Name = ''stopped''\<rparr> = ''stopped''"
    by (simp add: first_instance_def index0_def fixture_ec2_def)
  have b: "first_instance fixture_ec2 (world fixture_state) ''i-running'' = Inr \<lparr>State_Name = ''running''\<rparr>
           \<and> State_Name \<lparr>State_Name = ''running''\<rparr> = ''running''"
    by (simp add: first_instance_def index0_def fixture_ec2_def)
  show ?thesis
    using a b
      stop_start_idempotent [of fixture_ec2 fixture_state "''i-stopped''" "\<lparr>State_Name = ''stopped''\<rparr>" False]
      stop_start_idempotent [of fixture_ec2 fixture_state "''i-running''" "\<lparr>State_Name = ''running''\<rparr>" False]
    by blast
qed

subsection \<open>Unknown actions and the audit log\<close>

text \<open>
  Claim C7. For an action that is none of the six known ones, the handler returns
  \<open>statusCode\<close> 200 with a result whose \<open>error\<close> field is \<open>Unknown action: <action>\<close> and
  without \<open>details\<close>, and issues no call.
\<close>
theorem unknown_action_structured_error:
  assumes "ev_action ev \<notin> Some ` set known_actions"
  shows "fst (lambda_handler_cleanup api db LOG_TABLE clock ev st d) =
           \<lparr>statusCode = 200,
            body = \<lparr>res_action = ev_action ev, res_timestamp = fst clock,
                    res_dry_run = (case ev_dry_run ev of None \<Rightarrow> True | Some b \<Rightarrow> b),
                    res_details = None,
                    res_error = Some (''Unknown action: '' @ py_str (ev_action ev))\<rparr>\<rparr>
       \<and> fst (snd (lambda_handler_cleanup api db LOG_TABLE clock ev st d)) = st"
proof -
  have "ev_action ev \<noteq> Some ''stop_instances''" "ev_action ev \<noteq> Some ''start_instances''"
    "ev_action ev \<noteq> Some ''terminate_instances''" "ev_action ev \<noteq> Some ''delete_volumes''"
    "ev_action ev \<noteq> Some ''release_eips''" "ev_action ev \<noteq> Some ''delete_security_groups''"
    using assms by (auto simp: known_actions_def)
  then show ?thesis
    by (simp add: handler_state handler_response dispatch_def Let_def)
qed

theorem unknown_action_structured_error_witness:
  "fst (lambda_handler_cleanup fixture_ec2 fixture_db ''EC2CleanupLogs'' (''t1'', ''t2'', ''t3'')
          (fixture_event\<lparr>ev_action := Some ''reboot_instances''\<rparr>) fixture_state []) =
     \<lparr>statusCode = 200,
      body = \<lparr>res_action = Some ''reboot_instances'', res_timestamp = ''t1'', res_dry_run = True,
              res_details = None, res_error = Some ''Unknown action: reboot_instances''\<rparr>\<rparr>
   \<and> fst (lambda_handler_cleanup fixture_ec2 fixture_db ''EC2CleanupLogs'' (''t1'', ''t2'', ''t3'')
          (fixture_event\<lparr>ev_action := None\<rparr>) fixture_state []) =
     \<lparr>statusCode = 200,
      body = \<lparr>res_action = None, res_timestamp = ''t1'', res_dry_run = True,
              res_details = None, res_error = Some ''Unknown action: None''\<rparr>\<rparr>"
proof -
  have a: "ev_action (fixture_event\<lparr>ev_action := Some ''reboot_instances''\<rparr>) \<notin> Some ` set known_actions"
    by (simp add: known_actions_def image_iff)
  have b: "ev_action (fixture_event\<lparr>ev_action := None\<rparr>) \<notin> Some ` set known_actions"
    by (simp add: known_actions_def image_iff)
  show ?thesis
    using unknown_action_structured_error [OF a, of fixture_ec2 fixture_db "''EC2CleanupLogs''"
        "(''t1'', ''t2'', ''t3'')" fixture_state "[]"]
      unknown_action_structured_error [OF b, of fixture_ec2 fixture_db "''EC2CleanupLogs''"
        "(''t1'', ''t2'', ''t3'')" fixture_state "[]"]
    by (simp add: fixture_event_def py_str_def)
qed

text \<open>
  Claim C9. The response of the handler and the provider state it leaves do not depend on
  the audit store: they are the same for a store whose \<open>put_item\<close> raises as for one whose
  \<open>put_item\<close> succeeds.
\<close>
theorem audit_failure_swallowed:
  "fst (lambda_handler_cleanup api db1 LOG_TABLE clock ev st d1) =
     fst (lambda_handler_cleanup api db2 LOG_TABLE clock ev st d2)
   \<and> fst (snd (lambda_handler_cleanup api db1 LOG_TABLE clock ev st d1)) =
     fst (snd (lambda_handler_cleanup api db2 LOG_TABLE clock ev st d2))"
  by (simp add: handler_state handler_response)

theorem audit_failure_swallowed_witness:
  "fst (lambda_handler_cleanup fixture_ec2 fixture_db_failing ''EC2CleanupLogs''
          (''t1'', ''t2'', ''t3'') (fixture_event\<lparr>ev_dry_run := Some False\<rparr>) fixture_state []) =
     \<lparr>statusCode = 200,
      body = \<lparr>res_action = Some ''stop_instances'', res_timestamp = ''t1'', res_dry_run = False,
              res_details =
                Some \<lparr>action = ''stop_instances'',
                      requested = [''i-running'', ''i-gone'', ''i-stopped''],
                      results = [(''i-running'', ''stop_requested''),
                                 (''i-gone'', ''error:InvalidInstanceID.NotFound''),
                                 (''i-stopped'', ''already stopped'')]\<rparr>,
              res_error = None\<rparr>\<rparr>
   \<and> snd (snd (lambda_handler_cleanup fixture_ec2 fixture_db_failing ''EC2CleanupLogs''
          (''t1'', ''t2'', ''t3'') (fixture_event\<lparr>ev_dry_run := Some False\<rparr>) fixture_state [])) = []"
proof -
  have "fst (lambda_handler_cleanup fixture_ec2 fixture_db ''EC2CleanupLogs''
          (''t1'', ''t2'', ''t3'') (fixture_event\<lparr>ev_dry_run := Some False\<rparr>) fixture_state []) =
     \<lparr>statusCode = 200,
      body = \<lparr>res_action = Some ''stop_instances'', res_timestamp = ''t1'', res_dry_run = False,
              res_details =
                Some \<lparr>action = ''stop_instances'',
                      requested = [''i-running'', ''i-gone'', ''i-stopped''],
                      results = [(''i-running'', ''stop_requested''),
                                 (''i-gone'', ''error:InvalidInstanceID.NotFound''),
                                 (''i-stopped'', ''already stopped'')]\<rparr>,
              res_error = None\<rparr>\<rparr>"
    by (simp add: handler_simps fixture_simps)
  moreover have "snd (snd (lambda_handler_cleanup fixture_ec2 fixture_db_failing ''EC2CleanupLogs''
          (''t1'', ''t2'', ''t3'') (fixture_event\<lparr>ev_dry_run := Some False\<rparr>) fixture_state [])) = []"
    by (simp add: lambda_handler_cleanup_def Let_def log_action_def fixture_db_failing_def
        split: prod.splits)
  ultimately show ?thesis
    using audit_failure_swallowed [of fixture_ec2 fixture_db_failing "''EC2CleanupLogs''"
        "(''t1'', ''t2'', ''t3'')" "fixture_event\<lparr>ev_dry_run := Some False\<rparr>" fixture_state "[]"
        fixture_db "[]"]
    by simp
qed

section \<open>Properties of the detection module\<close>

subsection \<open>The classifier\<close>

lemma attempt_fields [simp]:
  "calls (attempt api c s) = calls s @ [c]"
  "analyzed_instances (attempt api c s) = analyzed_instances s"
  "idle_instances (attempt api c s) = idle_instances s"
  by (simp_all add: attempt_def)

lemma info_fields [simp]:
  "Status (with_metrics info a m i out ts) = Status info"
  "InstanceId (with_metrics info a m i out ts) = InstanceId info"
  "Status (base_info inst st rc) = st"
  "InstanceId (base_info inst st rc) = inst_id inst"
  by (simp_all add: with_metrics_def base_info_def)

lemma record_of_fields [simp]:
  "item_InstanceId (record_of info a m i out ts) = InstanceId info"
  "item_Status (record_of info a m i out ts) = Status info"
  by (simp_all add: record_of_def)

lemma put_keys_simps [simp]:
  "put_keys [] = []"
  "put_keys (PutItem item # cs) = (item_InstanceId item, item_Status item) # put_keys cs"
  "put_keys (CreateTags i ts # cs) = put_keys cs"
  "put_keys (cs @ ds) = put_keys cs @ put_keys ds"
  by (simp_all add: put_keys_def)

lemma persisted_verdicts_snoc [simp]:
  "persisted_verdicts [] = []"
  "persisted_verdicts (vs @ [v]) =
     persisted_verdicts vs @ (if Status v \<noteq> ''NoData'' then [(InstanceId v, Status v)] else [])"
  by (simp_all add: persisted_verdicts_def)

lemma classify_analyzed:
  "analyzed_instances (classify api ts inst cpu nin nout s) =
     analyzed_instances s @
       [if cpu = [] then base_info inst ''NoData'' ''Enable detailed monitoring''
        else with_metrics
               (if window_avg_cpu cpu < CPU_THRESHOLD
                   \<and> window_total_network nin nout < NETWORK_THRESHOLD
                then base_info inst ''Idle'' ''Consider stopping instance''
                else base_info inst ''Active'' ''Keep running'')
               (window_avg_cpu cpu) (fold max (map dp_Maximum (tl cpu)) (dp_Maximum (hd cpu)))
               (sum_list (map dp_Sum nin)) (sum_list (map dp_Sum nout)) ts]"
  by (cases cpu)
    (simp_all add: classify_def Let_def window_avg_cpu_def window_total_network_def)

text \<open>
  Claim C1. For every metric window the status of the entry that the classifier appends is
  the one of the decision table: \<open>NoData\<close> without CPU samples, \<open>Idle\<close> when the average CPU
  and the total network bytes are both strictly below their thresholds, \<open>Active\<close> otherwise;
  in particular a non-empty window with a figure equal to its threshold is \<open>Active\<close>.
\<close>

theorem classifier_matches_decision_table:
  "map InstanceId (analyzed_instances (classify api ts inst cpu nin nout s)) =
     map InstanceId (analyzed_instances s) @ [inst_id inst]
   \<and> map Status (analyzed_instances (classify api ts inst cpu nin nout s)) =
     map Status (analyzed_instances s) @ [status_name (spec_decision_table cpu nin nout)]
   \<and> (cpu = [] \<longrightarrow>
        Status (last (analyzed_instances (classify api ts inst cpu nin nout s))) = ''NoData'')
   \<and> (cpu \<noteq> [] \<and> (window_avg_cpu cpu = CPU_THRESHOLD
                    \<or> window_total_network nin nout = NETWORK_THRESHOLD) \<longrightarrow>
        Status (last (analyzed_instances (classify api ts inst cpu nin nout s))) = ''Active'')"
  by (auto simp: classify_analyzed spec_decision_table_def status_name_def)

lemmas detect_simps =
  classify_def analyze_def scan_instance_def lambda_handler_detect_def attempt_def
  base_info_def with_metrics_def record_of_def tags_dict_def get_list_def Let_def
  CPU_THRESHOLD_def NETWORK_THRESHOLD_def EVALUATION_MINUTES_def
  window_avg_cpu_def window_total_network_def spec_decision_table_def status_name_def
  fixture_detect_def fixture_instance_def fixture_scan_def

theorem classifier_matches_decision_table_witness:
  "map Status (analyzed_instances (classify fixture_detect ''t0'' (fixture_instance ''i-idle'' None)
       [\<lparr>dp_Average = 3, dp_Maximum = 5\<rparr>, \<lparr>dp_Average = 3.4, dp_Maximum = 9\<rparr>]
       [\<lparr>dp_Sum = 500000\<rparr>] [] fixture_scan)) = [''Idle'']
   \<and> Status (last (analyzed_instances (classify fixture_detect ''t0'' (fixture_instance ''i-none'' None)
       [] [\<lparr>dp_Sum = 500000\<rparr>] [] fixture_scan))) = ''NoData''
   \<and> Status (last (analyzed_instances (classify fixture_detect ''t0'' (fixture_instance ''i-edge'' None)
       [\<lparr>dp_Average = 8, dp_Maximum = 9\<rparr>, \<lparr>dp_Average = 12, dp_Maximum = 20\<rparr>]
       [\<lparr>dp_Sum = 500000\<rparr>] [] fixture_scan))) = ''Active''
   \<and> Status (last (analyzed_instances (classify fixture_detect ''t0'' (fixture_instance ''i-net'' None)
       [\<lparr>dp_Average = 1, dp_Maximum = 1\<rparr>]
       [\<lparr>dp_Sum = 1000000\<rparr>] [\<lparr>dp_Sum = 48576\<rparr>] fixture_scan))) = ''Active''"
proof -
  have a: "status_name (spec_decision_table
       [\<lparr>dp_Average = 3, dp_Maximum = 5\<rparr>, \<lparr>dp_Average = 3.4, dp_Maximum = 9\<rparr>]
       [\<lparr>dp_Sum = 500000\<rparr>] []) = ''Idle''"
    by (simp add: spec_decision_table_def status_name_def window_avg_cpu_def
        window_total_network_def CPU_THRESHOLD_def NETWORK_THRESHOLD_def)
  have b: "[\<lparr>dp_Average = 8, dp_Maximum = 9\<rparr>, \<lparr>dp_Average = 12, dp_Maximum = 20\<rparr>] \<noteq> []
     \<and> window_avg_cpu [\<lparr>dp_Average = 8, dp_Maximum = 9\<rparr>, \<lparr>dp_Average = 12, dp_Maximum = 20\<rparr>]
         = CPU_THRESHOLD"
    by (simp add: window_avg_cpu_def CPU_THRESHOLD_def)
  have c: "[\<lparr>dp_Average = 1, dp_Maximum = 1\<rparr>] \<noteq> []
     \<and> window_total_network [\<lparr>dp_Sum = 1000000\<rparr>] [\<lparr>dp_Sum = 48576\<rparr>] = NETWORK_THRESHOLD"
    by (simp add: window_total_network_def NETWORK_THRESHOLD_def)
  have 1: "map Status (analyzed_instances (classify fixture_detect ''t0'' (fixture_instance ''i-idle'' None)
       [\<lparr>dp_Average = 3, dp_Maximum = 5\<rparr>, \<lparr>dp_Average = 3.4, dp_Maximum = 9\<rparr>]
       [\<lparr>dp_Sum = 500000\<rparr>] [] fixture_scan)) = [''Idle'']"
    using a classifier_matches_decision_table [of fixture_detect "''t0''" "fixture_instance ''i-idle'' None"
        "[\<lparr>dp_Average = 3, dp_Maximum = 5\<rparr>, \<lparr>dp_Average = 3.4, dp_Maximum = 9\<rparr>]"
        "[\<lparr>dp_Sum = 500000\<rparr>]" "[]" fixture_scan]
    by (simp add: fixture_scan_def)
  have 2: "Status (last (analyzed_instances (classify fixture_detect ''t0'' (fixture_instance ''i-none'' None)
       [] [\<lparr>dp_Sum = 500000\<rparr>] [] fixture_scan))) = ''NoData''"
    using classifier_matches_decision_table [of fixture_detect "''t0''" "fixture_instance ''i-none'' None"
        "[]" "[\<lparr>dp_Sum = 500000\<rparr>]" "[]" fixture_scan]
    by blast
  have 3: "Status (last (analyzed_instances (classify fixture_detect ''t0'' (fixture_instance ''i-edge'' None)
       [\<lparr>dp_Average = 8, dp_Maximum = 9\<rparr>, \<lparr>dp_Average = 12, dp_Maximum = 20\<rparr>]
       [\<lparr>dp_Sum = 500000\<rparr>] [] fixture_scan))) = ''Active''"
    using b classifier_matches_decision_table [of fixture_detect "''t0''" "fixture_instance ''i-edge'' None"
        "[\<lparr>dp_Average = 8, dp_Maximum = 9\<rparr>, \<lparr>dp_Average = 12, dp_Maximum = 20\<rparr>]"
        "[\<lparr>dp_Sum = 500000\<rparr>]" "[]" fixture_scan]
    by blast
  have 4: "Status (last (analyzed_instances (classify fixture_detect ''t0'' (fixture_instance ''i-net'' None)
       [\<lparr>dp_Average = 1, dp_Maximum = 1\<rparr>]
       [\<lparr>dp_Sum = 1000000\<rparr>] [\<lparr>dp_Sum = 48576\<rparr>] fixture_scan))) = ''Active''"
    using c classifier_matches_decision_table [of fixture_detect "''t0''" "fixture_instance ''i-net'' None"
        "[\<lparr>dp_Average = 1, dp_Maximum = 1\<rparr>]"
        "[\<lparr>dp_Sum = 1000000\<rparr>]" "[\<lparr>dp_Sum = 48576\<rparr>]" fixture_scan]
    by blast
  show ?thesis using 1 2 3 4 by blast
qed

subsection \<open>The opt-out tag\<close>

lemma fold_filter_skip:
  assumes "\<And>x s. \<not> keep x \<Longrightarrow> f x s = s"
  shows "fold f (filter keep xs) s = fold f xs s"
proof (induction xs arbitrary: s)
  case Nil
  show ?case by simp
next
  case (Cons x xs)
  show ?case
  proof (cases "keep x")
    case True
    then show ?thesis using Cons.IH [of "f x s"] by simp
  next
    case False
    then have "f x s = s" by (rule assms)
    then show ?thesis using False Cons.IH [of s] by simp
  qed
qed

lemma analyze_classifies:
  assumes "cpu_utilization api (provider s) (inst_id inst) = Inr cpu"
    and "network_in api (provider s) (inst_id inst) = Inr nin"
    and "network_out api (provider s) (inst_id inst) = Inr nout"
  shows "analyze api ts inst s = classify api ts inst (get_list cpu) (get_list nin) (get_list nout) s"
  using assms by (simp add: analyze_def)

text \<open>
  Claim C8. An instance whose tag dictionary maps \<open>AutoStop\<close> to \<open>false\<close> is skipped: the
  scan state is unchanged, so the instance gets no verdict, and the handler returns what it
  returns for the list of instances without the opted-out ones, hence the same counts
  and lists. An instance without an \<open>AutoStop\<close> tag goes through the analysis and, when its
  metrics can be read, gets a verdict.
\<close>

theorem autostop_false_excluded:
  "(map_of (tags_dict inst) ''AutoStop'' = Some ''false'' \<longrightarrow> scan_instance api ts inst s = s)
   \<and> lambda_handler_detect api ts instances w =
       lambda_handler_detect api ts
         (filter (\<lambda>i. map_of (tags_dict i) ''AutoStop'' \<noteq> Some ''false'') instances) w
   \<and> (map_of (tags_dict inst) ''AutoStop'' = None \<longrightarrow>
        scan_instance api ts inst s = analyze api ts inst s
      \<and> (cpu_utilization api (provider s) (inst_id inst) = Inr cpu
         \<and> network_in api (provider s) (inst_id inst) = Inr nin
         \<and> network_out api (provider s) (inst_id inst) = Inr nout \<longrightarrow>
           map InstanceId (analyzed_instances (scan_instance api ts inst s)) =
             map InstanceId (analyzed_instances s) @ [inst_id inst]))"
proof -
  have skip: "scan_instance api ts i s0 = s0"
    if "\<not> map_of (tags_dict i) ''AutoStop'' \<noteq> Some ''false''" for i and s0 :: "'a scan"
    using that by (simp add: scan_instance_def)
  have 1: "map_of (tags_dict inst) ''AutoStop'' = Some ''false'' \<longrightarrow> scan_instance api ts inst s = s"
    by (simp add: scan_instance_def)
  have 2: "lambda_handler_detect api ts instances w =
       lambda_handler_detect api ts
         (filter (\<lambda>i. map_of (tags_dict i) ''AutoStop'' \<noteq> Some ''false'') instances) w"
    unfolding lambda_handler_detect_def
    using fold_filter_skip [of "\<lambda>i. map_of (tags_dict i) ''AutoStop'' \<noteq> Some ''false''"
        "scan_instance api ts" instances, OF skip]
    by simp
  have 3: "map_of (tags_dict inst) ''AutoStop'' = None \<longrightarrow>
        scan_instance api ts inst s = analyze api ts inst s
      \<and> (cpu_utilization api (provider s) (inst_id inst) = Inr cpu
         \<and> network_in api (provider s) (inst_id inst) = Inr nin
         \<and> network_out api (provider s) (inst_id inst) = Inr nout \<longrightarrow>
           map InstanceId (analyzed_instances (scan_instance api ts inst s)) =
             map InstanceId (analyzed_instances s) @ [inst_id inst])"
    by (auto simp: scan_instance_def analyze_classifies classify_analyzed)
  show ?thesis using 1 2 3 by blast
qed

theorem autostop_false_excluded_witness:
  "scan_instance fixture_detect ''t0''
     (fixture_instance ''i-idle'' (Some [(''Name'', ''db''), (''AutoStop'', ''false'')])) fixture_scan
     = fixture_scan
   \<and> map Status (analyzed_instances (scan_instance fixture_detect ''t0''
        (fixture_instance ''i-idle'' (Some [(''Name'', ''db'')])) fixture_scan)) = [''Idle'']
   \<and> counts (det_body (fst (lambda_handler_detect fixture_detect ''t0''
        [fixture_instance ''i-idle'' (Some [(''AutoStop'', ''false'')]),
         fixture_instance ''i-edge'' None] 0)))
     = \<lparr>total_instances_analyzed = 1, idle_count = 0, active_instances = 1\<rparr>"
proof -
  have a: "map_of (tags_dict (fixture_instance ''i-idle'' (Some [(''Name'', ''db''), (''AutoStop'', ''false'')])))
             ''AutoStop'' = Some ''false''"
    by (simp add: tags_dict_def fixture_instance_def get_list_def)
  have b: "map_of (tags_dict (fixture_instance ''i-idle'' (Some [(''Name'', ''db'')]))) ''AutoStop'' = None"
    by (simp add: tags_dict_def fixture_instance_def get_list_def)
  have 1: "scan_instance fixture_detect ''t0''
     (fixture_instance ''i-idle'' (Some [(''Name'', ''db''), (''AutoStop'', ''false'')])) fixture_scan
     = fixture_scan"
    using a autostop_false_excluded [of
        "fixture_instance ''i-idle'' (Some [(''Name'', ''db''), (''AutoStop'', ''false'')])"
        fixture_detect "''t0''" fixture_scan]
    by blast
  have "scan_instance fixture_detect ''t0''
          (fixture_instance ''i-idle'' (Some [(''Name'', ''db'')])) fixture_scan
        = analyze fixture_detect ''t0''
          (fixture_instance ''i-idle'' (Some [(''Name'', ''db'')])) fixture_scan"
    using b autostop_false_excluded [of
        "fixture_instance ''i-idle'' (Some [(''Name'', ''db'')])"
        fixture_detect "''t0''" fixture_scan]
    by blast
  then have 2: "map Status (analyzed_instances (scan_instance fixture_detect ''t0''
        (fixture_instance ''i-idle'' (Some [(''Name'', ''db'')])) fixture_scan)) = [''Idle'']"
    by (simp add: detect_simps)
  have 3: "counts (det_body (fst (lambda_handler_detect fixture_detect ''t0''
        [fixture_instance ''i-idle'' (Some [(''AutoStop'', ''false'')]),
         fixture_instance ''i-edge'' None] 0)))
     = \<lparr>total_instances_analyzed = 1, idle_count = 0, active_instances = 1\<rparr>"
    by (simp add: detect_simps)
  show ?thesis using 1 2 3 by blast
qed

subsection \<open>Persisted records\<close>

lemma fold_invariant:
  assumes "\<And>x s. P s \<Longrightarrow> P (f x s)" and "P s"
  shows "P (fold f xs s)"
  using assms(2) by (induction xs arbitrary: s) (simp_all add: assms(1))

lemma classify_put_keys:
  "put_keys (calls (classify api ts inst cpu nin nout s)) =
     put_keys (calls s) @
       (if cpu = [] then []
        else [(inst_id inst,
               if window_avg_cpu cpu < CPU_THRESHOLD
                  \<and> window_total_network nin nout < NETWORK_THRESHOLD
               then ''Idle'' else ''Active'')])"
  by (cases cpu)
    (simp_all add: classify_def Let_def window_avg_cpu_def window_total_network_def)

lemma scan_instance_persists:
  assumes "put_keys (calls s) = persisted_verdicts (analyzed_instances s)"
  shows "put_keys (calls (scan_instance api ts inst s)) =
           persisted_verdicts (analyzed_instances (scan_instance api ts inst s))"
  using assms
  by (simp add: scan_instance_def analyze_def classify_put_keys classify_analyzed
      split: sum.splits)

text \<open>
  Claim C4, as amended. In a scan cycle the \<open>put_item\<close> calls issued to the table are, in
  order, exactly one per verdict that is \<open>Idle\<close> or \<open>Active\<close>, keyed by the verdict's
  resource id and carrying its status. A \<open>NoData\<close> verdict gets no \<open>put_item\<close>.
\<close>

theorem verdicts_with_metrics_persisted:
  "put_keys (calls (snd (lambda_handler_detect api ts instances w))) =
     persisted_verdicts (all_instances (det_body (fst (lambda_handler_detect api ts instances w))))"
proof -
  let ?s0 = "\<lparr>provider = w, calls = [], idle_instances = [], analyzed_instances = []\<rparr>"
  have "put_keys (calls (fold (scan_instance api ts) instances ?s0)) =
          persisted_verdicts (analyzed_instances (fold (scan_instance api ts) instances ?s0))"
    by (rule fold_invariant [where P = "\<lambda>s. put_keys (calls s) = persisted_verdicts (analyzed_instances s)"])
      (simp_all add: scan_instance_persists)
  then show ?thesis
    by (simp add: lambda_handler_detect_def Let_def)
qed

theorem verdicts_with_metrics_persisted_witness:
  "put_keys (calls (snd (lambda_handler_detect fixture_detect ''t0''
      [fixture_instance ''i-idle'' None, fixture_instance ''i-nodata'' None,
       fixture_instance ''i-edge'' None] 0)))
     = [(''i-idle'', ''Idle''), (''i-edge'', ''Active'')]
   \<and> map Status (all_instances (det_body (fst (lambda_handler_detect fixture_detect ''t0''
      [fixture_instance ''i-idle'' None, fixture_instance ''i-nodata'' None,
       fixture_instance ''i-edge'' None] 0))))
     = [''Idle'', ''NoData'', ''Active'']"
proof -
  have "map Status (all_instances (det_body (fst (lambda_handler_detect fixture_detect ''t0''
      [fixture_instance ''i-idle'' None, fixture_instance ''i-nodata'' None,
       fixture_instance ''i-edge'' None] 0))))
     = [''Idle'', ''NoData'', ''Active'']"
    by (simp add: detect_simps)
  moreover have "persisted_verdicts (all_instances (det_body (fst (lambda_handler_detect fixture_detect ''t0''
      [fixture_instance ''i-idle'' None, fixture_instance ''i-nodata'' None,
       fixture_instance ''i-edge'' None] 0))))
     = [(''i-idle'', ''Idle''), (''i-edge'', ''Active'')]"
    by (simp add: detect_simps persisted_verdicts_def)
  ultimately show ?thesis
    using verdicts_with_metrics_persisted [of fixture_detect "''t0''"
        "[fixture_instance ''i-idle'' None, fixture_instance ''i-nodata'' None,
          fixture_instance ''i-edge'' None]" 0]
    by simp
qed

text \<open>
  Claim C4 as stated fails: an instance without CPU samples receives the verdict \<open>NoData\<close>,
  and the scan issues no write at all for it.
\<close>

theorem nodata_verdict_not_persisted:
  "map InstanceId (all_instances (det_body (fst (lambda_handler_detect fixture_detect ''t0''
      [fixture_instance ''i-nodata'' None] 0)))) = [''i-nodata'']
   \<and> map Status (all_instances (det_body (fst (lambda_handler_detect fixture_detect ''t0''
      [fixture_instance ''i-nodata'' None] 0)))) = [''NoData'']
   \<and> calls (snd (lambda_handler_detect fixture_detect ''t0''
      [fixture_instance ''i-nodata'' None] 0)) = []"
  by (simp add: detect_simps)

end
